theory Spec2Isabelle
  imports Main
begin

section \<open>Regular expressions of the token patterns\<close>

text \<open>
  The grammar files describe tokens by JavaScript regular expressions
  (\<^verbatim>\<open>/[a-zA-Z][a-zA-Z0-9]*/\<close>, \<^verbatim>\<open>/[0-9]+/\<close>, ...).  A text is the sequence of its
  UTF-8 bytes, one \<open>char\<close> each, so that a character beyond ASCII is the sequence of
  its bytes.  A character class is a list of inclusive ranges; a single character \<open>c\<close>
  is the range \<open>(c, c)\<close>.  A pattern of a grammar rule has to match a whole lexeme.
\<close>

datatype regex =
    Empty
  | Eps
  | Cls "(char \<times> char) list"
  | NCls "(char \<times> char) list"
  | Cat regex regex
  | Alt regex regex
  | Star regex

definition in_ranges :: "char \<Rightarrow> (char \<times> char) list \<Rightarrow> bool" where
  "in_ranges c rs =
     list_ex (\<lambda>(lo, hi). (of_char lo :: nat) \<le> of_char c \<and> (of_char c :: nat) \<le> of_char hi) rs"

definition Chr :: "char \<Rightarrow> regex" where
  "Chr c = Cls [(c, c)]"

definition Plus :: "regex \<Rightarrow> regex" where
  "Plus r = Cat r (Star r)"

fun Lit :: "string \<Rightarrow> regex" where
  "Lit [] = Eps"
| "Lit (c # cs) = Cat (Chr c) (Lit cs)"

fun nullable :: "regex \<Rightarrow> bool" where
  "nullable Empty = False"
| "nullable Eps = True"
| "nullable (Cls rs) = False"
| "nullable (NCls rs) = False"
| "nullable (Cat r s) = (nullable r \<and> nullable s)"
| "nullable (Alt r s) = (nullable r \<or> nullable s)"
| "nullable (Star r) = True"

text \<open>The derivative of a pattern by one character.\<close>

fun deriv :: "char \<Rightarrow> regex \<Rightarrow> regex" where
  "deriv c Empty = Empty"
| "deriv c Eps = Empty"
| "deriv c (Cls rs) = (if in_ranges c rs then Eps else Empty)"
| "deriv c (NCls rs) = (if in_ranges c rs then Empty else Eps)"
| "deriv c (Cat r s) =
     (if nullable r then Alt (Cat (deriv c r) s) (deriv c s) else Cat (deriv c r) s)"
| "deriv c (Alt r s) = Alt (deriv c r) (deriv c s)"
| "deriv c (Star r) = Cat (deriv c r) (Star r)"

fun rmatch :: "regex \<Rightarrow> string \<Rightarrow> bool" where
  "rmatch r [] = nullable r"
| "rmatch r (c # cs) = rmatch (deriv c r) cs"

text \<open>The set of lexemes of a pattern, used to reason about \<open>rmatch\<close>.\<close>

inductive_set star :: "string set \<Rightarrow> string set" for L :: "string set" where
  star_nil: "[] \<in> star L"
| star_app: "u \<in> L \<Longrightarrow> v \<in> star L \<Longrightarrow> u @ v \<in> star L"

fun lang :: "regex \<Rightarrow> string set" where
  "lang Empty = {}"
| "lang Eps = {[]}"
| "lang (Cls rs) = {[c] | c. in_ranges c rs}"
| "lang (NCls rs) = {[c] | c. \<not> in_ranges c rs}"
| "lang (Cat r s) = {u @ v | u v. u \<in> lang r \<and> v \<in> lang s}"
| "lang (Alt r s) = lang r \<union> lang s"
| "lang (Star r) = star (lang r)"

section \<open>The grammar DSL\<close>

text \<open>
  A grammar file evaluates \<^verbatim>\<open>grammar({ name, conflicts, extras, word, supertypes, rules })\<close>;
  the rule builders \<^verbatim>\<open>seq\<close>, \<^verbatim>\<open>choice\<close>, \<^verbatim>\<open>repeat\<close>, \<^verbatim>\<open>repeat1\<close>, \<^verbatim>\<open>prec\<close>,
  \<^verbatim>\<open>prec.left\<close>, \<^verbatim>\<open>prec.right\<close>, \<^verbatim>\<open>token\<close>, \<^verbatim>\<open>field\<close> and \<^verbatim>\<open>alias\<close> build the rule
  tree below, a string literal is \<open>STRING\<close>, a regular expression \<open>PATTERN\<close> and
  \<^verbatim>\<open>$.x\<close> is \<open>SYMBOL ''x''\<close>.  \<^verbatim>\<open>prec.right(rule)\<close> without a number is precedence 0.
\<close>

datatype rule =
    BLANK
  | STRING string
  | PATTERN regex
  | SYMBOL string
  | SEQ "rule list"
  | CHOICE "rule list"
  | REPEAT rule
  | REPEAT1 rule
  | PREC int rule
  | PREC_LEFT int rule
  | PREC_RIGHT int rule
  | TOKEN rule
  | FIELD string rule
  | ALIAS rule string

record grammar =
  name :: string
  conflicts :: "string list list"
  extras :: "rule list"
  word :: string
  supertypes :: "string list"
  rules :: "(string \<times> rule) list"

definition optional :: "rule \<Rightarrow> rule" where
  "optional r = CHOICE [r, BLANK]"

text \<open>The helper functions at the end of the grammar files.\<close>

definition sep1 :: "rule \<Rightarrow> string \<Rightarrow> rule" where
  "sep1 r separator = SEQ [r, REPEAT (SEQ [STRING separator, r])]"

definition commaSep1 :: "rule \<Rightarrow> rule" where
  "commaSep1 r = SEQ [r, REPEAT (SEQ [STRING '','', r])]"

definition commaSep :: "rule \<Rightarrow> rule" where
  "commaSep r = optional (commaSep1 r)"

text \<open>In the two later grammar files \<^verbatim>\<open>commaSep\<close> is written with \<^verbatim>\<open>sep1\<close>.\<close>

definition commaSep_v2 :: "rule \<Rightarrow> rule" where
  "commaSep_v2 r = optional (sep1 r '','')"

definition parens :: "rule \<Rightarrow> rule" where
  "parens r = SEQ [STRING ''('', r, STRING '')'']"

definition buildDomain :: "rule \<Rightarrow> rule" where
  "buildDomain r = sep1 r '',''"

text \<open>A precedence table is the object \<^verbatim>\<open>PRECEDENCE\<close>, flattened to dotted paths.\<close>

definition tier :: "(string \<times> int) list \<Rightarrow> string \<Rightarrow> int" where
  "tier P k = (case map_of P k of Some n \<Rightarrow> n | None \<Rightarrow> 0)"

subsection \<open>Patterns shared by the grammar files\<close>

definition lower :: "char \<times> char" where "lower = (CHR ''a'', CHR ''z'')"
definition upper :: "char \<times> char" where "upper = (CHR ''A'', CHR ''Z'')"
definition digit :: "char \<times> char" where "digit = (CHR ''0'', CHR ''9'')"
definition one :: "char \<Rightarrow> char \<times> char" where "one c = (c, c)"

definition dquote :: char where "dquote = CHR 0x22"
definition bslash :: char where "bslash = CHR 0x5C"
definition squote :: char where "squote = CHR 0x27"

text \<open>\<^verbatim>\<open>/[0-9]+/\<close>\<close>

definition digits_pattern :: regex where
  "digits_pattern = Plus (Cls [digit])"

text \<open>\<^verbatim>\<open>/"(?:\\["bfnrt\/\\]|\\u[a-fA-F0-9]{4}|[^"\\])*"/\<close>\<close>

definition hex :: regex where
  "hex = Cls [(CHR ''a'', CHR ''f''), (CHR ''A'', CHR ''F''), digit]"

definition string_pattern :: regex where
  "string_pattern =
     Cat (Chr dquote)
       (Cat (Star (Alt (Cat (Chr bslash)
                          (Cls [one dquote, one CHR ''b'', one CHR ''f'', one CHR ''n'',
                                one CHR ''r'', one CHR ''t'', one CHR ''/'', one bslash]))
                    (Alt (Cat (Chr bslash) (Cat (Chr CHR ''u'') (Cat hex (Cat hex (Cat hex hex)))))
                         (NCls [one dquote, one bslash]))))
            (Chr dquote))"

text \<open>
  \<^verbatim>\<open>/\s/\<close>: the white space and line terminators of ECMAScript, which are the code
  points 9 to 13 and 32 and, beyond ASCII and written as UTF-8 bytes, U+00A0, U+1680,
  U+2000 to U+200A, U+2028, U+2029, U+202F, U+205F, U+3000 and U+FEFF.
\<close>

definition space_pattern :: regex where
  "space_pattern =
     Alt (Cls [(CHR 0x09, CHR 0x0D), one CHR '' ''])
    (Alt (Lit [CHR 0xC2, CHR 0xA0])
    (Alt (Lit [CHR 0xE1, CHR 0x9A, CHR 0x80])
    (Alt (Cat (Lit [CHR 0xE2, CHR 0x80])
            (Cls [(CHR 0x80, CHR 0x8A), (CHR 0xA8, CHR 0xA9), one (CHR 0xAF)]))
    (Alt (Lit [CHR 0xE2, CHR 0x81, CHR 0x9F])
    (Alt (Lit [CHR 0xE3, CHR 0x80, CHR 0x80])
         (Lit [CHR 0xEF, CHR 0xBB, CHR 0xBF]))))))"

text \<open>
  \<^verbatim>\<open>/.*/\<close>: in ECMAScript \<^verbatim>\<open>.\<close> is any character but the line terminators, which are line
  feed, carriage return, U+2028 and U+2029 (the bytes \<^verbatim>\<open>E2 80 A8\<close> and \<^verbatim>\<open>E2 80 A9\<close>).
\<close>

definition no_line_terminator :: regex where
  "no_line_terminator =
     Alt (NCls [one (CHR 0x0A), one (CHR 0x0D), one (CHR 0xE2)])
         (Cat (Chr (CHR 0xE2))
            (Alt (Cat (NCls [one (CHR 0x80)]) (NCls []))
                 (Cat (Chr (CHR 0x80)) (NCls [(CHR 0xA8, CHR 0xA9)]))))"

definition line_pattern :: regex where
  "line_pattern = Star no_line_terminator"

text \<open>\<^verbatim>\<open>/[^*]*\*+([^/*][^*]*\*+)*/\<close>\<close>

definition block_comment_pattern :: regex where
  "block_comment_pattern =
     Cat (Star (NCls [one CHR ''*'']))
       (Cat (Plus (Chr CHR ''*''))
          (Star (Cat (NCls [one CHR ''/'', one CHR ''*''])
                  (Cat (Star (NCls [one CHR ''*''])) (Plus (Chr CHR ''*''))))))"

definition comment_rule :: rule where
  "comment_rule =
     TOKEN (CHOICE [SEQ [STRING ''//'', PATTERN line_pattern],
                    SEQ [STRING ''/*'', PATTERN block_comment_pattern, STRING ''/'']])"

section \<open>The grammar of \<^verbatim>\<open>src/grammar.js\<close>\<close>

definition PRECEDENCE_v1 :: "(string \<times> int) list" where
  "PRECEDENCE_v1 =
    [(''projection'', 70),
     (''application'', 60),
     (''arithmetic.multiplicative'', 54),
     (''arithmetic.additive'', 53),
     (''arithmetic.concat'', 52),
     (''arithmetic.relational'', 51),
     (''logical.and'', 42),
     (''logical.or'', 41),
     (''types.annotation'', 32),
     (''types.modal'', 31),
     (''control.pipeline'', 22),
     (''control.continuations'', 21),
     (''syntactic.arrow'', 11),
     (''syntactic.tag'', 11)]"

text \<open>\<^verbatim>\<open>/[a-zA-Z][a-zA-Z0-9]*/\<close>\<close>

definition identifier_pattern_v1 :: regex where
  "identifier_pattern_v1 = Cat (Cls [lower, upper]) (Star (Cls [lower, upper, digit]))"

definition mu_keyword :: string where
  "mu_keyword = [CHR 0xCE, CHR 0xBC]"

definition tail_v1 :: rule where
  "tail_v1 = optional (SEQ [STRING ''|'', SYMBOL ''identifier''])"

definition operation_v1 :: rule where
  "operation_v1 = CHOICE
    [PREC_LEFT (tier PRECEDENCE_v1 ''arithmetic.multiplicative'')
       (SEQ [SYMBOL ''expr'', CHOICE [STRING ''*'', STRING ''/'', STRING ''%''], SYMBOL ''expr'']),
     PREC_LEFT (tier PRECEDENCE_v1 ''arithmetic.additive'')
       (SEQ [SYMBOL ''expr'', CHOICE [STRING ''+'', STRING ''-''], SYMBOL ''expr'']),
     PREC_LEFT (tier PRECEDENCE_v1 ''arithmetic.concat'')
       (SEQ [SYMBOL ''expr'', CHOICE [STRING ''<>'', STRING ''++''], SYMBOL ''expr'']),
     PREC_LEFT (tier PRECEDENCE_v1 ''arithmetic.relational'')
       (SEQ [SYMBOL ''expr'',
             CHOICE [STRING ''=='', STRING ''!='', STRING ''<='', STRING ''>='', STRING ''<'', STRING ''>''],
             SYMBOL ''expr'']),
     PREC_LEFT (tier PRECEDENCE_v1 ''control.pipeline'')
       (SEQ [SYMBOL ''expr'', CHOICE [STRING ''|>'', STRING ''<|''], SYMBOL ''expr'']),
     PREC_LEFT (tier PRECEDENCE_v1 ''logical.and'')
       (SEQ [SYMBOL ''expr'', STRING ''&&'', SYMBOL ''expr'']),
     PREC_LEFT (tier PRECEDENCE_v1 ''logical.or'')
       (SEQ [SYMBOL ''expr'', STRING ''||'', SYMBOL ''expr''])]"

definition source_file_v1 :: rule where
  "source_file_v1 =
     CHOICE [SYMBOL ''module'', SYMBOL ''script'']"

definition module_v1 :: rule where
  "module_v1 =
     SEQ [SYMBOL ''exports'', REPEAT (SYMBOL ''import''), SYMBOL ''script'']"

definition script_v1 :: rule where
  "script_v1 =
     SEQ [SYMBOL ''statement'', REPEAT (SEQ [STRING '';'', SYMBOL ''statement'']),
     optional (STRING '';'')]"

definition exports_v1 :: rule where
  "exports_v1 =
     CHOICE [SEQ [STRING ''export'', STRING ''*'', STRING '';''],
     SEQ [STRING ''export'', STRING ''('', commaSep (SYMBOL ''identifier''), STRING '')'',
          STRING '';'']]"

definition import_v1 :: rule where
  "import_v1 =
     CHOICE [SEQ [STRING ''import'', SYMBOL ''string'', STRING '';''],
     SEQ [STRING ''import'', SYMBOL ''string'', STRING ''('',
          commaSep (SYMBOL ''identifier''), STRING '')'', STRING '';'']]"

definition statement_v1 :: rule where
  "statement_v1 =
     CHOICE [SYMBOL ''letdec'', SYMBOL ''using'', SYMBOL ''foreign'', SYMBOL ''expr'']"

definition letdec_v1 :: rule where
  "letdec_v1 =
     CHOICE [SEQ [STRING ''let'', FIELD ''name'' (SYMBOL ''identifier''), STRING ''='',
          FIELD ''value'' (SYMBOL ''expr'')],
     SEQ [STRING ''let'', FIELD ''name'' (SYMBOL ''identifier''), STRING '':'',
          FIELD ''type'' (SYMBOL ''type''), STRING ''='',
          FIELD ''value'' (SYMBOL ''expr'')]]"

definition using_v1 :: rule where
  "using_v1 =
     SEQ [STRING ''using'', SYMBOL ''ann'',
     optional (SEQ [STRING ''as'', SYMBOL ''identifier''])]"

definition foreign_v1 :: rule where
  "foreign_v1 =
     SEQ [STRING ''foreign'', SYMBOL ''identifier'', STRING '':'', SYMBOL ''type'']"

definition type_v1 :: rule where
  "type_v1 =
     CHOICE [SYMBOL ''pi'', SYMBOL ''mu'', SYMBOL ''variant'', SYMBOL ''dict'', SYMBOL ''row'',
     SYMBOL ''modal_type'', SYMBOL ''expr'', SYMBOL ''ann'']"

definition ann_v1 :: rule where
  "ann_v1 =
     PREC_RIGHT (tier PRECEDENCE_v1 ''types.annotation'')
     (SEQ [SYMBOL ''type'', STRING '':'', SYMBOL ''type''])"

definition modal_type_v1 :: rule where
  "modal_type_v1 =
     CHOICE [PREC (tier PRECEDENCE_v1 ''types.modal'')
       (SEQ [STRING ''<'', SYMBOL ''quantity'', STRING ''>'', SYMBOL ''type'',
             STRING ''[|'', SYMBOL ''lambda'', STRING ''|]'']),
     PREC (tier PRECEDENCE_v1 ''types.modal'')
       (SEQ [STRING ''<'', SYMBOL ''quantity'', STRING ''>'', SYMBOL ''type'']),
     PREC (tier PRECEDENCE_v1 ''types.modal'')
       (SEQ [SYMBOL ''type'', STRING ''[|'', SYMBOL ''lambda'', STRING ''|]''])]"

definition mu_v1 :: rule where
  "mu_v1 =
     PREC_RIGHT (tier PRECEDENCE_v1 ''syntactic.arrow'')
     (SEQ [STRING mu_keyword, FIELD ''name'' (SYMBOL ''identifier''), STRING ''->'',
           FIELD ''body'' (SYMBOL ''type'')])"

definition expr_v1 :: rule where
  "expr_v1 =
     CHOICE [SYMBOL ''lambda'', SYMBOL ''match'', SYMBOL ''block'', SYMBOL ''reset'',
     SYMBOL ''shift'', SYMBOL ''resume'', SYMBOL ''operation'', SYMBOL ''application'',
     SYMBOL ''atom'']"

definition application_v1 :: rule where
  "application_v1 =
     CHOICE [PREC_LEFT (tier PRECEDENCE_v1 ''application'')
       (SEQ [FIELD ''function'' (SYMBOL ''expr''), FIELD ''argument'' (SYMBOL ''atom'')]),
     PREC_LEFT (tier PRECEDENCE_v1 ''application'')
       (SEQ [FIELD ''function'' (SYMBOL ''expr''), STRING ''@'',
             FIELD ''argument'' (SYMBOL ''atom'')])]"

definition atom_v1 :: rule where
  "atom_v1 =
     CHOICE [SYMBOL ''variable'', SYMBOL ''hole'', SYMBOL ''literal'', SYMBOL ''struct'',
     SYMBOL ''tuple'', SYMBOL ''projection'', SYMBOL ''injection'', SYMBOL ''list'',
     SYMBOL ''tagged'', SYMBOL ''parenthesized'']"

definition parenthesized_v1 :: rule where
  "parenthesized_v1 =
     SEQ [STRING ''('', SYMBOL ''type'', STRING '')'']"

definition variable_v1 :: rule where
  "variable_v1 =
     CHOICE [SYMBOL ''identifier'', SYMBOL ''label'']"

definition hole_v1 :: rule where
  "hole_v1 =
     STRING ''_''"

definition label_v1 :: rule where
  "label_v1 =
     SEQ [STRING '':'', SYMBOL ''identifier'']"

definition literal_v1 :: rule where
  "literal_v1 =
     CHOICE [SYMBOL ''string'', SYMBOL ''number'', SYMBOL ''boolean'', STRING ''Type'',
     STRING ''Unit'', STRING ''!'', STRING ''Row'']"

definition string_v1 :: rule where
  "string_v1 =
     PATTERN string_pattern"

definition number_v1 :: rule where
  "number_v1 =
     TOKEN (CHOICE [SEQ [PATTERN digits_pattern, STRING ''.'', PATTERN digits_pattern],
     PATTERN digits_pattern])"

definition boolean_v1 :: rule where
  "boolean_v1 =
     CHOICE [STRING ''true'', STRING ''false'']"

definition lambda_v1 :: rule where
  "lambda_v1 =
     PREC_RIGHT (tier PRECEDENCE_v1 ''syntactic.arrow'')
     (CHOICE [SEQ [STRING [bslash], FIELD ''params'' (REPEAT1 (SYMBOL ''param'')),
                   STRING ''->'', FIELD ''body'' (SYMBOL ''type'')],
              SEQ [STRING [bslash], FIELD ''params'' (REPEAT1 (SYMBOL ''param'')),
                   STRING ''=>'', FIELD ''body'' (SYMBOL ''type'')]])"

definition param_v1 :: rule where
  "param_v1 =
     CHOICE [SYMBOL ''identifier'', SEQ [STRING ''('', SYMBOL ''typed_param'', STRING '')'']]"

definition typed_param_v1 :: rule where
  "typed_param_v1 =
     SEQ [SYMBOL ''identifier'', STRING '':'', SYMBOL ''type'']"

definition pi_v1 :: rule where
  "pi_v1 =
     CHOICE [PREC_RIGHT (tier PRECEDENCE_v1 ''syntactic.arrow'')
       (SEQ [FIELD ''domain'' (SYMBOL ''type''), STRING ''->'',
             FIELD ''codomain'' (SYMBOL ''type'')]),
     PREC_RIGHT (tier PRECEDENCE_v1 ''syntactic.arrow'')
       (SEQ [FIELD ''domain'' (SYMBOL ''type''), STRING ''=>'',
             FIELD ''codomain'' (SYMBOL ''type'')])]"

definition row_v1 :: rule where
  "row_v1 =
     SEQ [STRING ''['', commaSep (SYMBOL ''key_value''), tail_v1, STRING '']'']"

definition key_value_v1 :: rule where
  "key_value_v1 =
     SEQ [SYMBOL ''key'', STRING '':'', SYMBOL ''type'']"

definition key_v1 :: rule where
  "key_v1 =
     CHOICE [SYMBOL ''identifier'', PATTERN digits_pattern]"

definition struct_v1 :: rule where
  "struct_v1 =
     CHOICE [SEQ [STRING ''{'', STRING ''}''],
     SEQ [STRING ''{'', commaSep (SYMBOL ''key_value''), tail_v1, STRING ''}'']]"

definition tuple_v1 :: rule where
  "tuple_v1 =
     SEQ [STRING ''{'', commaSep1 (SYMBOL ''type''), tail_v1, STRING ''}'']"

definition list_v1 :: rule where
  "list_v1 =
     CHOICE [SEQ [STRING ''['', STRING '']''],
     SEQ [STRING ''['', commaSep1 (SYMBOL ''type''), tail_v1, STRING '']'']]"

definition variant_v1 :: rule where
  "variant_v1 =
     SEQ [STRING ''|'', sep1 (SYMBOL ''tagged'') ''|'']"

definition tagged_v1 :: rule where
  "tagged_v1 =
     PREC_RIGHT (tier PRECEDENCE_v1 ''syntactic.tag'')
     (SEQ [STRING ''#'', FIELD ''tag'' (SYMBOL ''identifier''),
           FIELD ''payload'' (SYMBOL ''type'')])"

definition dict_v1 :: rule where
  "dict_v1 =
     SEQ [STRING ''{'', STRING ''['', SYMBOL ''type'', STRING '']'', STRING '':'',
     SYMBOL ''type'', STRING ''}'']"

definition projection_v1 :: rule where
  "projection_v1 =
     CHOICE [PREC_LEFT (tier PRECEDENCE_v1 ''projection'')
       (SEQ [FIELD ''record'' (SYMBOL ''atom''), STRING ''.'',
             FIELD ''key'' (SYMBOL ''identifier'')]),
     SEQ [STRING ''.'', FIELD ''key'' (SYMBOL ''identifier'')]]"

definition injection_v1 :: rule where
  "injection_v1 =
     CHOICE [SEQ [STRING ''{'', FIELD ''record'' (SYMBOL ''expr''), STRING ''|'',
          FIELD ''updates'' (commaSep (SYMBOL ''assignment'')), STRING ''}''],
     SEQ [STRING ''{'', STRING ''|'',
          FIELD ''updates'' (commaSep (SYMBOL ''assignment'')), STRING ''}'']]"

definition assignment_v1 :: rule where
  "assignment_v1 =
     SEQ [FIELD ''key'' (SYMBOL ''identifier''), STRING ''='', FIELD ''value'' (SYMBOL ''type'')]"

definition block_v1 :: rule where
  "block_v1 =
     CHOICE [SEQ [STRING ''{'',
          FIELD ''statements'' (REPEAT (SEQ [SYMBOL ''statement'', STRING '';''])),
          optional (FIELD ''return'' (SYMBOL ''return_statement'')), STRING ''}''],
     SEQ [STRING ''{'', FIELD ''return'' (SYMBOL ''return_statement''), STRING ''}'']]"

definition return_statement_v1 :: rule where
  "return_statement_v1 =
     SEQ [STRING ''return'', FIELD ''value'' (SYMBOL ''ann''), STRING '';'']"

definition match_v1 :: rule where
  "match_v1 =
     SEQ [STRING ''match'', FIELD ''subject'' (SYMBOL ''type''),
     REPEAT1 (FIELD ''branch'' (SYMBOL ''alternative''))]"

definition alternative_v1 :: rule where
  "alternative_v1 =
     SEQ [STRING ''|'', FIELD ''pattern'' (SYMBOL ''pattern''), STRING ''->'',
     FIELD ''body'' (SYMBOL ''type'')]"

definition pattern_v1 :: rule where
  "pattern_v1 =
     CHOICE [SYMBOL ''pattern_variable'', SYMBOL ''pattern_literal'', SYMBOL ''pattern_tagged'',
     SYMBOL ''pattern_struct'', SYMBOL ''pattern_tuple'', SYMBOL ''pattern_list'',
     SYMBOL ''pattern_row'', SYMBOL ''wildcard'']"

definition pattern_variable_v1 :: rule where
  "pattern_variable_v1 =
     SYMBOL ''identifier''"

definition pattern_literal_v1 :: rule where
  "pattern_literal_v1 =
     SYMBOL ''literal''"

definition pattern_tagged_v1 :: rule where
  "pattern_tagged_v1 =
     PREC_RIGHT (tier PRECEDENCE_v1 ''syntactic.tag'')
     (SEQ [STRING ''#'', FIELD ''tag'' (SYMBOL ''identifier''),
           FIELD ''payload'' (SYMBOL ''pattern'')])"

definition pattern_struct_v1 :: rule where
  "pattern_struct_v1 =
     CHOICE [SEQ [STRING ''{'', STRING ''}''],
     SEQ [STRING ''{'', commaSep (SYMBOL ''pattern_key_value''), tail_v1, STRING ''}'']]"

definition pattern_tuple_v1 :: rule where
  "pattern_tuple_v1 =
     SEQ [STRING ''{'', commaSep1 (SYMBOL ''pattern''), tail_v1, STRING ''}'']"

definition pattern_list_v1 :: rule where
  "pattern_list_v1 =
     CHOICE [SEQ [STRING ''['', STRING '']''],
     SEQ [STRING ''['', commaSep1 (SYMBOL ''pattern''), tail_v1, STRING '']'']]"

definition pattern_row_v1 :: rule where
  "pattern_row_v1 =
     SEQ [STRING ''['', commaSep (SYMBOL ''pattern_key_value''), tail_v1, STRING '']'']"

definition pattern_key_value_v1 :: rule where
  "pattern_key_value_v1 =
     SEQ [SYMBOL ''identifier'', STRING '':'', SYMBOL ''pattern'']"

definition wildcard_v1 :: rule where
  "wildcard_v1 =
     STRING ''_''"

definition reset_v1 :: rule where
  "reset_v1 =
     PREC_RIGHT (tier PRECEDENCE_v1 ''control.continuations'')
     (SEQ [STRING ''reset'', SYMBOL ''type''])"

definition shift_v1 :: rule where
  "shift_v1 =
     PREC_RIGHT (tier PRECEDENCE_v1 ''control.continuations'')
     (SEQ [STRING ''shift'', SYMBOL ''type''])"

definition resume_v1 :: rule where
  "resume_v1 =
     PREC_RIGHT (tier PRECEDENCE_v1 ''control.continuations'')
     (SEQ [STRING ''resume'', SYMBOL ''type''])"

definition quantity_v1 :: rule where
  "quantity_v1 =
     CHOICE [STRING ''0'', STRING ''1'', STRING ''*'']"

definition identifier_v1 :: rule where
  "identifier_v1 =
     PATTERN identifier_pattern_v1"

definition rules_v1 :: "(string \<times> rule) list" where
  "rules_v1 =
    [(''source_file'', source_file_v1), (''module'', module_v1), (''script'', script_v1),
     (''exports'', exports_v1), (''import'', import_v1), (''statement'', statement_v1),
     (''letdec'', letdec_v1), (''using'', using_v1), (''foreign'', foreign_v1),
     (''type'', type_v1), (''ann'', ann_v1), (''modal_type'', modal_type_v1), (''mu'', mu_v1),
     (''expr'', expr_v1), (''application'', application_v1), (''operation'', operation_v1),
     (''atom'', atom_v1), (''parenthesized'', parenthesized_v1), (''variable'', variable_v1),
     (''hole'', hole_v1), (''label'', label_v1), (''literal'', literal_v1),
     (''string'', string_v1), (''number'', number_v1), (''boolean'', boolean_v1),
     (''lambda'', lambda_v1), (''param'', param_v1), (''typed_param'', typed_param_v1),
     (''pi'', pi_v1), (''row'', row_v1), (''key_value'', key_value_v1), (''key'', key_v1),
     (''struct'', struct_v1), (''tuple'', tuple_v1), (''list'', list_v1),
     (''variant'', variant_v1), (''tagged'', tagged_v1), (''dict'', dict_v1),
     (''projection'', projection_v1), (''injection'', injection_v1),
     (''assignment'', assignment_v1), (''block'', block_v1),
     (''return_statement'', return_statement_v1), (''match'', match_v1),
     (''alternative'', alternative_v1), (''pattern'', pattern_v1),
     (''pattern_variable'', pattern_variable_v1), (''pattern_literal'', pattern_literal_v1),
     (''pattern_tagged'', pattern_tagged_v1), (''pattern_struct'', pattern_struct_v1),
     (''pattern_tuple'', pattern_tuple_v1), (''pattern_list'', pattern_list_v1),
     (''pattern_row'', pattern_row_v1), (''pattern_key_value'', pattern_key_value_v1),
     (''wildcard'', wildcard_v1), (''reset'', reset_v1), (''shift'', shift_v1),
     (''resume'', resume_v1), (''quantity'', quantity_v1), (''identifier'', identifier_v1),
     (''comment'', comment_rule)]"

definition grammar_v1 :: grammar where
  "grammar_v1 =
    \<lparr> name = ''yap'',
      conflicts =
        [[''struct'', ''block''], [''variable'', ''key''], [''row'', ''list''],
         [''type'', ''injection''], [''modal_type''], [''variant''], [''match''],
         [''list'', ''dict''], [''pattern_list'', ''pattern_row'']],
      extras = [PATTERN space_pattern, SYMBOL ''comment''],
      word = ''identifier'',
      supertypes = [''type'', ''expr'', ''pattern'', ''atom'', ''statement''],
      rules = rules_v1 \<rparr>"

section \<open>The first grammar of \<^verbatim>\<open>src/unnamed/part_000\<close> (lines 1 to 418)\<close>

text \<open>\<^verbatim>\<open>const IDENTIFIER_PATTERN = /[a-zA-Z_][a-zA-Z0-9_']*/\<close>, the same in both grammars of the file.\<close>

definition IDENTIFIER_PATTERN :: regex where
  "IDENTIFIER_PATTERN =
     Cat (Cls [lower, upper, one CHR ''_''])
       (Star (Cls [lower, upper, digit, one CHR ''_'', one squote]))"

text \<open>\<^verbatim>\<open>new RegExp(":" + IDENTIFIER_PATTERN.source)\<close>\<close>

definition label_pattern :: regex where
  "label_pattern = Cat (Lit '':'') IDENTIFIER_PATTERN"

definition PRECEDENCE_v2 :: "(string \<times> int) list" where
  "PRECEDENCE_v2 =
    [(''arithmetic.multiplicative'', 54),
     (''arithmetic.additive'', 53),
     (''arithmetic.concat'', 52),
     (''arithmetic.relational'', 51),
     (''logical.and'', 42),
     (''logical.or'', 41),
     (''types.modal.multiple'', 32),
     (''types.modal.single'', 31),
     (''control.pipeline'', 22),
     (''control.continuations'', 21),
     (''syntactic.field'', 80),
     (''syntactic.injection'', 71),
     (''syntactic.projection'', 70),
     (''syntactic.tail'', 62),
     (''syntactic.unary'', 61),
     (''syntactic.application'', 60),
     (''syntactic.arrow'', 13),
     (''syntactic.tag'', 12),
     (''syntactic.key'', 11),
     (''syntactic.base'', 10)]"

definition tail_v2 :: rule where
  "tail_v2 =
     PREC_RIGHT (tier PRECEDENCE_v2 ''syntactic.tail'')
       (optional (FIELD ''tail'' (SEQ [STRING ''|'', SYMBOL ''identifier''])))"

definition pattern_tail_v2 :: rule where
  "pattern_tail_v2 =
     PREC_RIGHT (tier PRECEDENCE_v2 ''syntactic.base'')
       (optional (SEQ [STRING ''|'', SYMBOL ''identifier'']))"

definition operation_v2 :: rule where
  "operation_v2 = CHOICE
    [PREC_LEFT (tier PRECEDENCE_v2 ''arithmetic.multiplicative'')
       (SEQ [SYMBOL ''expr'',
             CHOICE [STRING ''*'', STRING ''/'', STRING ''%''],
             SYMBOL ''expr'']),
     PREC_LEFT (tier PRECEDENCE_v2 ''arithmetic.additive'')
       (SEQ [SYMBOL ''expr'',
             CHOICE [STRING ''+'', STRING ''-''],
             SYMBOL ''expr'']),
     PREC_LEFT (tier PRECEDENCE_v2 ''arithmetic.concat'')
       (SEQ [SYMBOL ''expr'',
             CHOICE [STRING ''<>'', STRING ''++''],
             SYMBOL ''expr'']),
     PREC_LEFT (tier PRECEDENCE_v2 ''arithmetic.relational'')
       (SEQ [SYMBOL ''expr'',
             CHOICE [STRING ''=='', STRING ''!='', STRING ''<='', STRING ''>='', STRING ''<'', STRING ''>''],
             SYMBOL ''expr'']),
     PREC_LEFT (tier PRECEDENCE_v2 ''control.pipeline'')
       (SEQ [SYMBOL ''expr'',
             CHOICE [STRING ''|>'', STRING ''<|''],
             SYMBOL ''expr'']),
     PREC_LEFT (tier PRECEDENCE_v2 ''logical.and'')
       (SEQ [SYMBOL ''expr'',
             STRING ''&&'',
             SYMBOL ''expr'']),
     PREC_LEFT (tier PRECEDENCE_v2 ''logical.or'')
       (SEQ [SYMBOL ''expr'',
             STRING ''||'',
             SYMBOL ''expr''])]"

definition source_file_v2 :: rule where
  "source_file_v2 =
     CHOICE [SYMBOL ''module'', SYMBOL ''script'']"

definition module_v2 :: rule where
  "module_v2 =
     SEQ [SYMBOL ''exports'', REPEAT (SYMBOL ''import''), SYMBOL ''script'']"

definition script_v2 :: rule where
  "script_v2 =
     SEQ [SYMBOL ''statement'', REPEAT (SEQ [STRING '';'', SYMBOL ''statement'']),
     optional (STRING '';'')]"

definition exports_v2 :: rule where
  "exports_v2 =
     CHOICE [SEQ [STRING ''export'', STRING ''*'', STRING '';''],
     SEQ [STRING ''export'', STRING ''('', sep1 (SYMBOL ''identifier'') '','',
          STRING '')'', STRING '';'']]"

definition import_v2 :: rule where
  "import_v2 =
     CHOICE [SEQ [STRING ''import'', SYMBOL ''string'', STRING '';''],
     SEQ [STRING ''import'', SYMBOL ''string'', STRING ''('',
          sep1 (SYMBOL ''identifier'') '','', STRING '')'', STRING '';'']]"

definition statement_v2 :: rule where
  "statement_v2 =
     CHOICE [SYMBOL ''letdec'', SYMBOL ''using'', SYMBOL ''foreign'', SYMBOL ''expr'']"

definition letdec_v2 :: rule where
  "letdec_v2 =
     CHOICE [SEQ [STRING ''let'', FIELD ''name'' (SYMBOL ''identifier''), STRING ''='',
          FIELD ''value'' (SYMBOL ''expr'')],
     SEQ [STRING ''let'', FIELD ''name'' (SYMBOL ''identifier''), STRING '':'',
          FIELD ''type'' (SYMBOL ''expr''), STRING ''='',
          FIELD ''value'' (SYMBOL ''expr'')]]"

definition using_v2 :: rule where
  "using_v2 =
     SEQ [STRING ''using'', SYMBOL ''expr'',
     optional (SEQ [STRING ''as'', SYMBOL ''identifier''])]"

definition foreign_v2 :: rule where
  "foreign_v2 =
     SEQ [STRING ''foreign'', SYMBOL ''identifier'', STRING '':'', SYMBOL ''expr'']"

definition type_expr_v2 :: rule where
  "type_expr_v2 =
     CHOICE [SYMBOL ''pi'', SYMBOL ''arrow'', SYMBOL ''mu'', SYMBOL ''variant'', SYMBOL ''dict'',
     SYMBOL ''modal'']"

definition modal_v2 :: rule where
  "modal_v2 =
     CHOICE [PREC_RIGHT (tier PRECEDENCE_v2 ''types.modal.multiple'')
       (SEQ [STRING ''<'', SYMBOL ''quantity'', STRING ''>'', SYMBOL ''expr'',
             STRING ''[|'', SYMBOL ''lambda'', STRING ''|]'']),
     PREC_RIGHT (tier PRECEDENCE_v2 ''types.modal.single'')
       (SEQ [STRING ''<'', SYMBOL ''quantity'', STRING ''>'', SYMBOL ''expr'']),
     PREC_RIGHT (tier PRECEDENCE_v2 ''types.modal.single'')
       (SEQ [SYMBOL ''expr'', STRING ''[|'', SYMBOL ''lambda'', STRING ''|]''])]"

definition mu_v2 :: rule where
  "mu_v2 =
     PREC_RIGHT (tier PRECEDENCE_v2 ''syntactic.arrow'')
     (SEQ [STRING mu_keyword, FIELD ''name'' (SYMBOL ''identifier''), STRING ''->'',
           FIELD ''body'' (SYMBOL ''expr'')])"

definition expr_v2 :: rule where
  "expr_v2 =
     CHOICE [SYMBOL ''type_expr'', SYMBOL ''lambda'', SYMBOL ''match'', SYMBOL ''block'',
     SYMBOL ''unary'', SYMBOL ''operation'', SYMBOL ''application'',
     SYMBOL ''annotation'', SYMBOL ''atom'']"

definition annotation_v2 :: rule where
  "annotation_v2 =
     PREC_RIGHT (tier PRECEDENCE_v2 ''syntactic.base'')
     (SEQ [SYMBOL ''expr'', STRING '':'', SYMBOL ''expr''])"

definition unary_v2 :: rule where
  "unary_v2 =
     PREC_RIGHT (tier PRECEDENCE_v2 ''syntactic.unary'')
     (SEQ [CHOICE [STRING ''-'', STRING ''+''], SYMBOL ''expr''])"

definition application_v2 :: rule where
  "application_v2 =
     CHOICE [PREC_LEFT (tier PRECEDENCE_v2 ''syntactic.application'')
       (SEQ [FIELD ''function'' (SYMBOL ''expr''), FIELD ''argument'' (SYMBOL ''atom'')]),
     PREC_LEFT (tier PRECEDENCE_v2 ''syntactic.application'')
       (SEQ [FIELD ''function'' (SYMBOL ''expr''),
             ALIAS (STRING ''@'') ''implicit_application'',
             FIELD ''argument'' (SYMBOL ''atom'')])]"

definition atom_v2 :: rule where
  "atom_v2 =
     CHOICE [SYMBOL ''variable'', SYMBOL ''hole'', SYMBOL ''literal'', SYMBOL ''struct'',
     SYMBOL ''tuple'', SYMBOL ''projection'', SYMBOL ''injection'', SYMBOL ''row'',
     SYMBOL ''list'', SYMBOL ''tagged'', SYMBOL ''reset'', SYMBOL ''shift'',
     SYMBOL ''resume'', SYMBOL ''parenthesized'']"

definition parenthesized_v2 :: rule where
  "parenthesized_v2 =
     parens (SYMBOL ''expr'')"

definition variable_v2 :: rule where
  "variable_v2 =
     CHOICE [SYMBOL ''identifier'', SYMBOL ''label'']"

definition hole_v2 :: rule where
  "hole_v2 =
     STRING ''?''"

definition identifier_v2 :: rule where
  "identifier_v2 =
     PATTERN IDENTIFIER_PATTERN"

definition label_v2 :: rule where
  "label_v2 =
     TOKEN (PATTERN label_pattern)"

definition literal_v2 :: rule where
  "literal_v2 =
     CHOICE [SYMBOL ''string'', SYMBOL ''number'', SYMBOL ''boolean'', STRING ''Type'',
     STRING ''Unit'', STRING ''Row'', STRING ''!'']"

definition string_v2 :: rule where
  "string_v2 =
     PATTERN string_pattern"

definition digits_v2 :: rule where
  "digits_v2 =
     TOKEN (PATTERN digits_pattern)"

definition number_v2 :: rule where
  "number_v2 =
     CHOICE [PREC_RIGHT 1 (SEQ [SYMBOL ''_digits'', STRING ''.'', SYMBOL ''_digits'']),
     SYMBOL ''_digits'']"

definition boolean_v2 :: rule where
  "boolean_v2 =
     CHOICE [STRING ''true'', STRING ''false'']"

definition pi_v2 :: rule where
  "pi_v2 =
     CHOICE [PREC_RIGHT (tier PRECEDENCE_v2 ''syntactic.arrow'')
       (SEQ [FIELD ''domain'' (parens (sep1 (SYMBOL ''typing'') '','')),
             ALIAS (STRING ''->'') ''explicit_arrow'',
             FIELD ''codomain'' (SYMBOL ''expr'')]),
     PREC_RIGHT (tier PRECEDENCE_v2 ''syntactic.arrow'')
       (SEQ [FIELD ''domain'' (parens (sep1 (SYMBOL ''typing'') '','')),
             ALIAS (STRING ''=>'') ''implicit_arrow'',
             FIELD ''codomain'' (SYMBOL ''expr'')])]"

definition arrow_v2 :: rule where
  "arrow_v2 =
     CHOICE [PREC_RIGHT (tier PRECEDENCE_v2 ''syntactic.arrow'')
       (SEQ [FIELD ''domain'' (parens (sep1 (SYMBOL ''expr'') '','')),
             ALIAS (STRING ''->'') ''explicit_arrow'',
             FIELD ''codomain'' (SYMBOL ''expr'')]),
     PREC_RIGHT (tier PRECEDENCE_v2 ''syntactic.arrow'')
       (SEQ [FIELD ''domain'' (SYMBOL ''expr''),
             ALIAS (STRING ''->'') ''explicit_arrow'',
             FIELD ''codomain'' (SYMBOL ''expr'')]),
     PREC_RIGHT (tier PRECEDENCE_v2 ''syntactic.arrow'')
       (SEQ [FIELD ''domain'' (parens (sep1 (SYMBOL ''expr'') '','')),
             ALIAS (STRING ''=>'') ''implicit_arrow'',
             FIELD ''codomain'' (SYMBOL ''expr'')]),
     PREC_RIGHT (tier PRECEDENCE_v2 ''syntactic.arrow'')
       (SEQ [FIELD ''domain'' (SYMBOL ''expr''),
             ALIAS (STRING ''=>'') ''implicit_arrow'',
             FIELD ''codomain'' (SYMBOL ''expr'')])]"

definition lambda_v2 :: rule where
  "lambda_v2 =
     PREC_RIGHT 0
     (CHOICE [SEQ [STRING [bslash], FIELD ''params'' (SYMBOL ''params''),
                   ALIAS (STRING ''->'') ''explicit_arrow'', FIELD ''body'' (SYMBOL ''expr'')],
              SEQ [STRING [bslash], FIELD ''params'' (SYMBOL ''params''),
                   ALIAS (STRING ''=>'') ''implicit_arrow'', FIELD ''body'' (SYMBOL ''expr'')]])"

definition params_v2 :: rule where
  "params_v2 =
     CHOICE [REPEAT1 (SYMBOL ''param''), parens (sep1 (SYMBOL ''param'') '','')]"

definition param_v2 :: rule where
  "param_v2 =
     CHOICE [SYMBOL ''identifier'', parens (SYMBOL ''typing'')]"

definition typing_v2 :: rule where
  "typing_v2 =
     PREC_RIGHT (tier PRECEDENCE_v2 ''syntactic.base'')
     (SEQ [SYMBOL ''identifier'', STRING '':'', SYMBOL ''expr''])"

definition row_v2 :: rule where
  "row_v2 =
     SEQ [STRING ''['', sep1 (SYMBOL ''key_value'') '','', tail_v2, STRING '']'']"

definition key_value_v2 :: rule where
  "key_value_v2 =
     PREC_RIGHT (tier PRECEDENCE_v2 ''syntactic.field'')
     (SEQ [SYMBOL ''key'', STRING '':'', SYMBOL ''expr''])"

definition key_v2 :: rule where
  "key_v2 =
     PREC_RIGHT (tier PRECEDENCE_v2 ''syntactic.key'')
     (CHOICE [ALIAS (SYMBOL ''identifier'') ''field'', ALIAS (SYMBOL ''_digits'') ''index''])"

definition struct_v2 :: rule where
  "struct_v2 =
     CHOICE [SEQ [STRING ''{'', STRING ''}''],
     SEQ [STRING ''{'', sep1 (SYMBOL ''key_value'') '','', tail_v2, STRING ''}'']]"

definition tuple_v2 :: rule where
  "tuple_v2 =
     SEQ [STRING ''{'', sep1 (SYMBOL ''expr'') '','', tail_v2, STRING ''}'']"

definition list_v2 :: rule where
  "list_v2 =
     CHOICE [SEQ [STRING ''['', STRING '']''],
     SEQ [STRING ''['', sep1 (SYMBOL ''expr'') '','', tail_v2, STRING '']'']]"

definition variant_v2 :: rule where
  "variant_v2 =
     PREC_RIGHT (tier PRECEDENCE_v2 ''syntactic.base'')
     (SEQ [STRING ''|'', sep1 (SYMBOL ''tagged'') ''|''])"

definition tagged_v2 :: rule where
  "tagged_v2 =
     PREC_RIGHT (tier PRECEDENCE_v2 ''syntactic.tag'')
     (SEQ [STRING ''#'', FIELD ''tag'' (SYMBOL ''identifier''),
           FIELD ''payload'' (SYMBOL ''expr'')])"

definition dict_v2 :: rule where
  "dict_v2 =
     PREC_RIGHT (tier PRECEDENCE_v2 ''syntactic.base'')
     (SEQ [STRING ''{'', STRING ''['', SYMBOL ''expr'', STRING '']'', STRING '':'',
           SYMBOL ''expr'', STRING ''}''])"

definition projection_v2 :: rule where
  "projection_v2 =
     CHOICE [PREC_LEFT (tier PRECEDENCE_v2 ''syntactic.projection'')
       (SEQ [FIELD ''record'' (SYMBOL ''atom''), STRING ''.'',
             FIELD ''key'' (SYMBOL ''identifier'')]),
     SEQ [STRING ''.'', FIELD ''key'' (SYMBOL ''identifier'')]]"

definition injection_v2 :: rule where
  "injection_v2 =
     CHOICE [PREC_RIGHT (tier PRECEDENCE_v2 ''syntactic.injection'')
       (SEQ [STRING ''{'', FIELD ''record'' (SYMBOL ''expr''), STRING ''|'',
             FIELD ''updates'' (sep1 (SYMBOL ''assignment'') '',''), STRING ''}'']),
     PREC_RIGHT (tier PRECEDENCE_v2 ''syntactic.injection'')
       (SEQ [STRING ''{'', STRING ''|'',
             FIELD ''updates'' (sep1 (SYMBOL ''assignment'') '',''), STRING ''}''])]"

definition assignment_v2 :: rule where
  "assignment_v2 =
     SEQ [FIELD ''key'' (SYMBOL ''identifier''), STRING ''='', FIELD ''value'' (SYMBOL ''expr'')]"

definition block_v2 :: rule where
  "block_v2 =
     CHOICE [SEQ [STRING ''{'',
          FIELD ''statements'' (REPEAT (SEQ [SYMBOL ''statement'', STRING '';''])),
          optional (FIELD ''return'' (SYMBOL ''return_statement'')), STRING ''}''],
     SEQ [STRING ''{'', FIELD ''return'' (SYMBOL ''return_statement''), STRING ''}'']]"

definition return_statement_v2 :: rule where
  "return_statement_v2 =
     SEQ [STRING ''return'', FIELD ''value'' (SYMBOL ''expr''), STRING '';'']"

definition match_v2 :: rule where
  "match_v2 =
     PREC_RIGHT (tier PRECEDENCE_v2 ''syntactic.base'')
     (SEQ [STRING ''match'', FIELD ''subject'' (SYMBOL ''expr''),
           REPEAT1 (FIELD ''branch'' (SYMBOL ''alternative''))])"

definition alternative_v2 :: rule where
  "alternative_v2 =
     PREC_RIGHT 0
     (SEQ [STRING ''|'', FIELD ''pattern'' (SYMBOL ''pattern''), STRING ''->'',
           FIELD ''body'' (SYMBOL ''expr'')])"

definition pattern_v2 :: rule where
  "pattern_v2 =
     CHOICE [SYMBOL ''variable'', SYMBOL ''literal'', SYMBOL ''pattern_tagged'',
     SYMBOL ''pattern_struct'', SYMBOL ''pattern_tuple'', SYMBOL ''pattern_list'',
     SYMBOL ''pattern_row'', SYMBOL ''wildcard'']"

definition pattern_tagged_v2 :: rule where
  "pattern_tagged_v2 =
     PREC_RIGHT (tier PRECEDENCE_v2 ''syntactic.tag'')
     (SEQ [STRING ''#'', FIELD ''tag'' (SYMBOL ''identifier''),
           FIELD ''payload'' (SYMBOL ''pattern'')])"

definition pattern_struct_v2 :: rule where
  "pattern_struct_v2 =
     CHOICE [SEQ [STRING ''{'', optional (SEQ [STRING ''|'', SYMBOL ''identifier'']), STRING ''}''],
     SEQ [STRING ''{'', sep1 (SYMBOL ''pattern_key_value'') '','', pattern_tail_v2,
          STRING ''}'']]"

definition pattern_tuple_v2 :: rule where
  "pattern_tuple_v2 =
     SEQ [STRING ''{'', sep1 (SYMBOL ''pattern'') '','', pattern_tail_v2, STRING ''}'']"

definition pattern_list_v2 :: rule where
  "pattern_list_v2 =
     CHOICE [SEQ [STRING ''['', STRING '']''],
     SEQ [STRING ''['', sep1 (SYMBOL ''pattern'') '','', pattern_tail_v2, STRING '']'']]"

definition pattern_row_v2 :: rule where
  "pattern_row_v2 =
     SEQ [STRING ''['', commaSep_v2 (SYMBOL ''pattern_key_value''), pattern_tail_v2,
     STRING '']'']"

definition pattern_key_value_v2 :: rule where
  "pattern_key_value_v2 =
     SEQ [SYMBOL ''identifier'', STRING '':'', SYMBOL ''pattern'']"

definition wildcard_v2 :: rule where
  "wildcard_v2 =
     STRING ''_''"

definition reset_v2 :: rule where
  "reset_v2 =
     PREC_RIGHT (tier PRECEDENCE_v2 ''control.continuations'')
     (SEQ [STRING ''reset'', SYMBOL ''expr''])"

definition shift_v2 :: rule where
  "shift_v2 =
     PREC_RIGHT (tier PRECEDENCE_v2 ''control.continuations'')
     (SEQ [STRING ''shift'', SYMBOL ''expr''])"

definition resume_v2 :: rule where
  "resume_v2 =
     PREC_RIGHT (tier PRECEDENCE_v2 ''control.continuations'')
     (SEQ [STRING ''resume'', SYMBOL ''expr''])"

definition quantity_v2 :: rule where
  "quantity_v2 =
     CHOICE [STRING ''0'', STRING ''1'', STRING ''*'']"

definition rules_v2 :: "(string \<times> rule) list" where
  "rules_v2 =
    [(''source_file'', source_file_v2), (''module'', module_v2), (''script'', script_v2),
     (''exports'', exports_v2), (''import'', import_v2), (''statement'', statement_v2),
     (''letdec'', letdec_v2), (''using'', using_v2), (''foreign'', foreign_v2),
     (''type_expr'', type_expr_v2), (''modal'', modal_v2), (''mu'', mu_v2), (''expr'', expr_v2),
     (''annotation'', annotation_v2), (''unary'', unary_v2), (''application'', application_v2),
     (''operation'', operation_v2), (''atom'', atom_v2), (''parenthesized'', parenthesized_v2),
     (''variable'', variable_v2), (''hole'', hole_v2), (''identifier'', identifier_v2),
     (''label'', label_v2), (''literal'', literal_v2), (''string'', string_v2),
     (''_digits'', digits_v2), (''number'', number_v2), (''boolean'', boolean_v2), (''pi'', pi_v2),
     (''arrow'', arrow_v2), (''lambda'', lambda_v2), (''params'', params_v2),
     (''param'', param_v2), (''typing'', typing_v2), (''row'', row_v2),
     (''key_value'', key_value_v2), (''key'', key_v2), (''struct'', struct_v2),
     (''tuple'', tuple_v2), (''list'', list_v2), (''variant'', variant_v2),
     (''tagged'', tagged_v2), (''dict'', dict_v2), (''projection'', projection_v2),
     (''injection'', injection_v2), (''assignment'', assignment_v2), (''block'', block_v2),
     (''return_statement'', return_statement_v2), (''match'', match_v2),
     (''alternative'', alternative_v2), (''pattern'', pattern_v2),
     (''pattern_tagged'', pattern_tagged_v2), (''pattern_struct'', pattern_struct_v2),
     (''pattern_tuple'', pattern_tuple_v2), (''pattern_list'', pattern_list_v2),
     (''pattern_row'', pattern_row_v2), (''pattern_key_value'', pattern_key_value_v2),
     (''wildcard'', wildcard_v2), (''reset'', reset_v2), (''shift'', shift_v2),
     (''resume'', resume_v2), (''quantity'', quantity_v2), (''comment'', comment_rule)]"

definition grammar_v2 :: grammar where
  "grammar_v2 =
    \<lparr> name = ''yap'',
      conflicts = [[''struct'', ''block''], [''pattern_list'', ''pattern_row'']],
      extras = [PATTERN space_pattern, SYMBOL ''comment''],
      word = ''identifier'',
      supertypes = [''type_expr'', ''expr'', ''pattern'', ''atom'', ''statement''],
      rules = rules_v2 \<rparr>"

section \<open>The second grammar of \<^verbatim>\<open>src/unnamed/part_000\<close> (lines 419 to 860)\<close>

definition PRECEDENCE_v3 :: "(string \<times> int) list" where
  "PRECEDENCE_v3 =
    [(''arithmetic.multiplicative'', 54),
     (''arithmetic.additive'', 53),
     (''arithmetic.concat'', 52),
     (''arithmetic.relational'', 51),
     (''logical.and'', 42),
     (''logical.or'', 41),
     (''types.modal.multiple'', 32),
     (''types.modal.single'', 31),
     (''control.pipeline'', 22),
     (''control.continuations'', 21),
     (''syntactic.field'', 80),
     (''syntactic.injection'', 71),
     (''syntactic.projection'', 70),
     (''syntactic.tail'', 62),
     (''syntactic.unary'', 61),
     (''syntactic.application'', 60),
     (''syntactic.arrow'', 13),
     (''syntactic.tag'', 12),
     (''syntactic.key'', 11),
     (''syntactic.domain'', 11),
     (''syntactic.base'', 10)]"

text \<open>The file holds the bytes \<^verbatim>\<open>C3 8E C2 BC\<close> where the other grammars have the letter mu.\<close>

definition mu_keyword_v3 :: string where
  "mu_keyword_v3 = [CHR 0xC3, CHR 0x8E, CHR 0xC2, CHR 0xBC]"

definition tail_v3 :: rule where
  "tail_v3 =
     PREC_RIGHT (tier PRECEDENCE_v3 ''syntactic.tail'')
       (optional (FIELD ''tail'' (SEQ [STRING ''|'', SYMBOL ''identifier''])))"

definition pattern_tail_v3 :: rule where
  "pattern_tail_v3 =
     PREC_RIGHT (tier PRECEDENCE_v3 ''syntactic.base'')
       (optional (FIELD ''tail'' (SEQ [STRING ''|'', SYMBOL ''identifier''])))"

definition operation_v3 :: rule where
  "operation_v3 = CHOICE
    [PREC_LEFT (tier PRECEDENCE_v3 ''arithmetic.multiplicative'')
       (SEQ [FIELD ''left'' (SYMBOL ''expr''),
             FIELD ''operator'' (CHOICE [STRING ''*'', STRING ''/'', STRING ''%'']),
             FIELD ''right'' (SYMBOL ''expr'')]),
     PREC_LEFT (tier PRECEDENCE_v3 ''arithmetic.additive'')
       (SEQ [FIELD ''left'' (SYMBOL ''expr''),
             FIELD ''operator'' (CHOICE [STRING ''+'', STRING ''-'']),
             FIELD ''right'' (SYMBOL ''expr'')]),
     PREC_LEFT (tier PRECEDENCE_v3 ''arithmetic.concat'')
       (SEQ [FIELD ''left'' (SYMBOL ''expr''),
             FIELD ''operator'' (CHOICE [STRING ''<>'', STRING ''++'']),
             FIELD ''right'' (SYMBOL ''expr'')]),
     PREC_LEFT (tier PRECEDENCE_v3 ''arithmetic.relational'')
       (SEQ [FIELD ''left'' (SYMBOL ''expr''),
             FIELD ''operator'' (CHOICE [STRING ''=='', STRING ''!='', STRING ''<='', STRING ''>='', STRING ''<'', STRING ''>'']),
             FIELD ''right'' (SYMBOL ''expr'')]),
     PREC_LEFT (tier PRECEDENCE_v3 ''control.pipeline'')
       (SEQ [FIELD ''left'' (SYMBOL ''expr''),
             FIELD ''operator'' (CHOICE [STRING ''|>'', STRING ''<|'']),
             FIELD ''right'' (SYMBOL ''expr'')]),
     PREC_LEFT (tier PRECEDENCE_v3 ''logical.and'')
       (SEQ [FIELD ''left'' (SYMBOL ''expr''),
             FIELD ''operator'' (ALIAS (STRING ''&&'') ''and''),
             FIELD ''right'' (SYMBOL ''expr'')]),
     PREC_LEFT (tier PRECEDENCE_v3 ''logical.or'')
       (SEQ [FIELD ''left'' (SYMBOL ''expr''),
             FIELD ''operator'' (ALIAS (STRING ''||'') ''or''),
             FIELD ''right'' (SYMBOL ''expr'')])]"

definition source_file_v3 :: rule where
  "source_file_v3 =
     CHOICE [SYMBOL ''module'', SYMBOL ''script'']"

definition module_v3 :: rule where
  "module_v3 =
     SEQ [SYMBOL ''exports'', REPEAT (SYMBOL ''import''), SYMBOL ''script'']"

definition script_v3 :: rule where
  "script_v3 =
     SEQ [SYMBOL ''statement'', REPEAT (SEQ [STRING '';'', SYMBOL ''statement'']),
     optional (STRING '';'')]"

definition exports_v3 :: rule where
  "exports_v3 =
     CHOICE [SEQ [STRING ''export'', STRING ''*'', STRING '';''],
     SEQ [STRING ''export'', STRING ''('', sep1 (SYMBOL ''identifier'') '','',
          STRING '')'', STRING '';'']]"

definition import_v3 :: rule where
  "import_v3 =
     CHOICE [SEQ [STRING ''import'', SYMBOL ''string'', STRING '';''],
     SEQ [STRING ''import'', SYMBOL ''string'', STRING ''('',
          sep1 (SYMBOL ''identifier'') '','', STRING '')'', STRING '';'']]"

definition statement_v3 :: rule where
  "statement_v3 =
     CHOICE [SYMBOL ''letdec'', SYMBOL ''using'', SYMBOL ''foreign'', SYMBOL ''type_expr'']"

definition letdec_v3 :: rule where
  "letdec_v3 =
     CHOICE [SEQ [STRING ''let'', FIELD ''name'' (SYMBOL ''identifier''), STRING ''='',
          FIELD ''value'' (SYMBOL ''type_expr'')],
     SEQ [STRING ''let'', FIELD ''name'' (SYMBOL ''identifier''), STRING '':'',
          FIELD ''type'' (SYMBOL ''type_expr''), STRING ''='',
          FIELD ''value'' (SYMBOL ''type_expr'')]]"

definition using_v3 :: rule where
  "using_v3 =
     SEQ [STRING ''using'', SYMBOL ''expr'',
     optional (SEQ [STRING ''as'', SYMBOL ''identifier''])]"

definition foreign_v3 :: rule where
  "foreign_v3 =
     SEQ [STRING ''foreign'', SYMBOL ''identifier'', STRING '':'', SYMBOL ''type_expr'']"

definition type_expr_v3 :: rule where
  "type_expr_v3 =
     CHOICE [SYMBOL ''pi'', SYMBOL ''arrow'', SYMBOL ''mu'', SYMBOL ''variant'', SYMBOL ''modal'',
     SYMBOL ''expr'']"

definition modal_v3 :: rule where
  "modal_v3 =
     CHOICE [PREC_RIGHT (tier PRECEDENCE_v3 ''types.modal.multiple'')
       (SEQ [STRING ''<'', SYMBOL ''quantity'', STRING ''>'', SYMBOL ''expr'',
             STRING ''[|'', SYMBOL ''lambda'', STRING ''|]'']),
     PREC_RIGHT (tier PRECEDENCE_v3 ''types.modal.single'')
       (SEQ [STRING ''<'', SYMBOL ''quantity'', STRING ''>'', SYMBOL ''expr'']),
     PREC_RIGHT (tier PRECEDENCE_v3 ''types.modal.single'')
       (SEQ [SYMBOL ''expr'', STRING ''[|'', SYMBOL ''lambda'', STRING ''|]''])]"

definition mu_v3 :: rule where
  "mu_v3 =
     PREC_RIGHT (tier PRECEDENCE_v3 ''syntactic.arrow'')
     (SEQ [STRING mu_keyword_v3, FIELD ''name'' (SYMBOL ''identifier''), STRING ''->'',
           FIELD ''body'' (SYMBOL ''type_expr'')])"

definition expr_v3 :: rule where
  "expr_v3 =
     CHOICE [SYMBOL ''lambda'', SYMBOL ''match'', SYMBOL ''unary'', SYMBOL ''operation'',
     SYMBOL ''application'', SYMBOL ''annotation'', SYMBOL ''atom'']"

definition annotation_v3 :: rule where
  "annotation_v3 =
     PREC_RIGHT (tier PRECEDENCE_v3 ''syntactic.base'')
     (SEQ [FIELD ''expr'' (SYMBOL ''expr''), STRING '':'',
           FIELD ''type'' (SYMBOL ''type_expr'')])"

definition unary_v3 :: rule where
  "unary_v3 =
     PREC_RIGHT (tier PRECEDENCE_v3 ''syntactic.unary'')
     (SEQ [FIELD ''operator'' (CHOICE [STRING ''-'', STRING ''+'']),
           FIELD ''operand'' (SYMBOL ''expr'')])"

definition application_v3 :: rule where
  "application_v3 =
     CHOICE [PREC_RIGHT (tier PRECEDENCE_v3 ''syntactic.application'')
     (SEQ [FIELD ''function'' (SYMBOL ''atom''),
           FIELD ''argument'' (REPEAT1 (SYMBOL ''argument''))])]"

definition argument_v3 :: rule where
  "argument_v3 =
     CHOICE [FIELD ''explicit'' (SYMBOL ''atom''),
     SEQ [STRING ''@'', FIELD ''implicit'' (SYMBOL ''atom'')]]"

definition atom_v3 :: rule where
  "atom_v3 =
     CHOICE [SYMBOL ''variable'', SYMBOL ''hole'', SYMBOL ''literal'', SYMBOL ''dict'',
     SYMBOL ''struct'', SYMBOL ''tuple'', SYMBOL ''projection'', SYMBOL ''injection'',
     SYMBOL ''row'', SYMBOL ''list'', SYMBOL ''tagged'', SYMBOL ''reset'',
     SYMBOL ''shift'', SYMBOL ''resume'', SYMBOL ''parenthesized'', SYMBOL ''block'']"

definition parenthesized_v3 :: rule where
  "parenthesized_v3 =
     parens (SYMBOL ''type_expr'')"

definition variable_v3 :: rule where
  "variable_v3 =
     CHOICE [SYMBOL ''identifier'', SYMBOL ''label'']"

definition hole_v3 :: rule where
  "hole_v3 =
     STRING ''?''"

definition identifier_v3 :: rule where
  "identifier_v3 =
     PATTERN IDENTIFIER_PATTERN"

definition label_v3 :: rule where
  "label_v3 =
     TOKEN (PATTERN label_pattern)"

definition literal_v3 :: rule where
  "literal_v3 =
     CHOICE [SYMBOL ''string'', SYMBOL ''number'', SYMBOL ''boolean'',
     ALIAS (STRING ''Type'') ''TypeOfTypes'', ALIAS (STRING ''Unit'') ''Unit'',
     ALIAS (STRING ''Row'') ''Row'', ALIAS (STRING ''!'') ''Bang'']"

definition string_v3 :: rule where
  "string_v3 =
     PATTERN string_pattern"

definition digits_v3 :: rule where
  "digits_v3 =
     TOKEN (PATTERN digits_pattern)"

definition number_v3 :: rule where
  "number_v3 =
     CHOICE [PREC_RIGHT 1 (SEQ [SYMBOL ''_digits'', STRING ''.'', SYMBOL ''_digits'']),
     SYMBOL ''_digits'']"

definition boolean_v3 :: rule where
  "boolean_v3 =
     CHOICE [STRING ''true'', STRING ''false'']"

definition pi_v3 :: rule where
  "pi_v3 =
     CHOICE [PREC_RIGHT (tier PRECEDENCE_v3 ''syntactic.arrow'')
       (SEQ [FIELD ''domain'' (ALIAS (SYMBOL ''pidomain'') ''domain''),
             FIELD ''icit'' (ALIAS (STRING ''->'') ''explicit''),
             FIELD ''codomain'' (SYMBOL ''type_expr'')]),
     PREC_RIGHT (tier PRECEDENCE_v3 ''syntactic.arrow'')
       (SEQ [FIELD ''domain'' (ALIAS (SYMBOL ''pidomain'') ''domain''),
             FIELD ''icit'' (ALIAS (STRING ''=>'') ''implicit''),
             FIELD ''codomain'' (SYMBOL ''type_expr'')])]"

definition arrow_v3 :: rule where
  "arrow_v3 =
     CHOICE [PREC_RIGHT (tier PRECEDENCE_v3 ''syntactic.arrow'')
       (SEQ [FIELD ''domain'' (ALIAS (SYMBOL ''arrdomain'') ''domain''),
             FIELD ''icit'' (ALIAS (STRING ''->'') ''explicit''),
             FIELD ''codomain'' (SYMBOL ''type_expr'')]),
     PREC_RIGHT (tier PRECEDENCE_v3 ''syntactic.arrow'')
       (SEQ [FIELD ''domain'' (ALIAS (SYMBOL ''arrdomain'') ''domain''),
             FIELD ''icit'' (ALIAS (STRING ''=>'') ''implicit''),
             FIELD ''codomain'' (SYMBOL ''type_expr'')])]"

definition pidomain_v3 :: rule where
  "pidomain_v3 =
     PREC_RIGHT (tier PRECEDENCE_v3 ''syntactic.domain'')
     (parens (buildDomain (FIELD ''param'' (SYMBOL ''typing''))))"

definition arrdomain_v3 :: rule where
  "arrdomain_v3 =
     CHOICE [PREC_RIGHT (tier PRECEDENCE_v3 ''syntactic.domain'')
       (parens (buildDomain (FIELD ''param'' (SYMBOL ''type_expr'')))),
     PREC_RIGHT (tier PRECEDENCE_v3 ''syntactic.domain'')
       (FIELD ''param'' (SYMBOL ''expr''))]"

definition lambda_v3 :: rule where
  "lambda_v3 =
     PREC_RIGHT (tier PRECEDENCE_v3 ''syntactic.base'')
     (CHOICE [SEQ [STRING [bslash], FIELD ''params'' (SYMBOL ''params''),
                   FIELD ''icit'' (ALIAS (STRING ''->'') ''explicit''),
                   FIELD ''body'' (SYMBOL ''type_expr'')],
              SEQ [STRING [bslash], FIELD ''params'' (SYMBOL ''params''),
                   FIELD ''icit'' (ALIAS (STRING ''=>'') ''implicit''),
                   FIELD ''body'' (SYMBOL ''type_expr'')]])"

definition params_v3 :: rule where
  "params_v3 =
     CHOICE [REPEAT1 (SYMBOL ''param''), parens (sep1 (SYMBOL ''param'') '','')]"

definition param_v3 :: rule where
  "param_v3 =
     CHOICE [SYMBOL ''identifier'', parens (SYMBOL ''typing'')]"

definition typing_v3 :: rule where
  "typing_v3 =
     PREC_RIGHT (tier PRECEDENCE_v3 ''syntactic.base'')
     (SEQ [SYMBOL ''identifier'', STRING '':'', SYMBOL ''type_expr''])"

definition row_v3 :: rule where
  "row_v3 =
     SEQ [STRING ''['', FIELD ''field'' (sep1 (SYMBOL ''key_value'') '',''), tail_v3,
     STRING '']'']"

definition key_value_v3 :: rule where
  "key_value_v3 =
     PREC_RIGHT (tier PRECEDENCE_v3 ''syntactic.field'')
     (SEQ [FIELD ''key'' (SYMBOL ''key''), STRING '':'', FIELD ''value'' (SYMBOL ''type_expr'')])"

definition key_v3 :: rule where
  "key_v3 =
     PREC_RIGHT (tier PRECEDENCE_v3 ''syntactic.key'')
     (CHOICE [ALIAS (SYMBOL ''identifier'') ''field'', ALIAS (SYMBOL ''_digits'') ''index''])"

definition struct_v3 :: rule where
  "struct_v3 =
     CHOICE [SEQ [STRING ''{'', STRING ''}''],
     SEQ [STRING ''{'', FIELD ''field'' (sep1 (SYMBOL ''key_value'') '',''), tail_v3,
          STRING ''}'']]"

definition tuple_v3 :: rule where
  "tuple_v3 =
     SEQ [STRING ''{'', FIELD ''element'' (sep1 (SYMBOL ''type_expr'') '',''), tail_v3,
     STRING ''}'']"

definition list_v3 :: rule where
  "list_v3 =
     CHOICE [SEQ [STRING ''['', STRING '']''],
     SEQ [STRING ''['', sep1 (FIELD ''element'' (SYMBOL ''type_expr'')) '','',
          PREC_RIGHT (tier PRECEDENCE_v3 ''syntactic.tail'')
            (optional (SEQ [STRING ''|'', FIELD ''tail'' (SYMBOL ''identifier'')])),
          STRING '']'']]"

definition variant_v3 :: rule where
  "variant_v3 =
     PREC_RIGHT (tier PRECEDENCE_v3 ''syntactic.tag'')
     (SEQ [STRING ''|'', sep1 (FIELD ''variant'' (SYMBOL ''tagged'')) ''|''])"

definition tagged_v3 :: rule where
  "tagged_v3 =
     PREC_RIGHT (tier PRECEDENCE_v3 ''syntactic.tag'')
     (SEQ [STRING ''#'', FIELD ''tag'' (SYMBOL ''identifier''),
           FIELD ''payload'' (SYMBOL ''expr'')])"

definition dict_v3 :: rule where
  "dict_v3 =
     PREC_RIGHT (tier PRECEDENCE_v3 ''syntactic.base'')
     (SEQ [STRING ''{'', STRING ''['', FIELD ''index'' (SYMBOL ''expr''), STRING '']'',
           STRING '':'', FIELD ''type'' (SYMBOL ''type_expr''), STRING ''}''])"

definition projection_v3 :: rule where
  "projection_v3 =
     CHOICE [PREC_LEFT (tier PRECEDENCE_v3 ''syntactic.projection'')
       (SEQ [FIELD ''record'' (SYMBOL ''atom''), STRING ''.'',
             FIELD ''key'' (SYMBOL ''identifier'')]),
     SEQ [STRING ''.'', FIELD ''key'' (SYMBOL ''identifier'')]]"

definition injection_v3 :: rule where
  "injection_v3 =
     CHOICE [PREC_RIGHT (tier PRECEDENCE_v3 ''syntactic.injection'')
       (SEQ [STRING ''{'', FIELD ''record'' (SYMBOL ''expr''), STRING ''|'',
             sep1 (FIELD ''updates'' (SYMBOL ''assignment'')) '','', STRING ''}'']),
     PREC_RIGHT (tier PRECEDENCE_v3 ''syntactic.injection'')
       (SEQ [STRING ''{'', STRING ''|'',
             sep1 (FIELD ''updates'' (SYMBOL ''assignment'')) '','', STRING ''}''])]"

definition assignment_v3 :: rule where
  "assignment_v3 =
     SEQ [FIELD ''key'' (SYMBOL ''identifier''), STRING ''='',
     FIELD ''value'' (SYMBOL ''type_expr'')]"

definition block_v3 :: rule where
  "block_v3 =
     CHOICE [SEQ [STRING ''{'',
          REPEAT (SEQ [FIELD ''statement'' (SYMBOL ''statement''), STRING '';'']),
          optional (FIELD ''return'' (SYMBOL ''return_statement'')), STRING ''}''],
     SEQ [STRING ''{'', FIELD ''return'' (SYMBOL ''return_statement''), STRING ''}'']]"

definition return_statement_v3 :: rule where
  "return_statement_v3 =
     SEQ [STRING ''return'', FIELD ''value'' (SYMBOL ''type_expr''), STRING '';'']"

definition match_v3 :: rule where
  "match_v3 =
     PREC_RIGHT (tier PRECEDENCE_v3 ''syntactic.base'')
     (SEQ [STRING ''match'', FIELD ''subject'' (SYMBOL ''expr''),
           REPEAT1 (FIELD ''branch'' (SYMBOL ''alternative''))])"

definition alternative_v3 :: rule where
  "alternative_v3 =
     PREC_RIGHT (tier PRECEDENCE_v3 ''syntactic.base'')
     (SEQ [STRING ''|'', FIELD ''pattern'' (SYMBOL ''pattern''), STRING ''->'',
           FIELD ''body'' (SYMBOL ''expr'')])"

definition pattern_v3 :: rule where
  "pattern_v3 =
     CHOICE [SYMBOL ''variable'', SYMBOL ''literal'', SYMBOL ''pattern_tagged'',
     SYMBOL ''pattern_struct'', SYMBOL ''pattern_tuple'', SYMBOL ''pattern_list'',
     SYMBOL ''pattern_row'', SYMBOL ''wildcard'']"

definition pattern_tagged_v3 :: rule where
  "pattern_tagged_v3 =
     PREC_RIGHT (tier PRECEDENCE_v3 ''syntactic.tag'')
     (SEQ [STRING ''#'', FIELD ''tag'' (SYMBOL ''identifier''),
           FIELD ''payload'' (SYMBOL ''pattern'')])"

definition pattern_struct_v3 :: rule where
  "pattern_struct_v3 =
     CHOICE [SEQ [STRING ''{'',
          optional (FIELD ''tail'' (SEQ [STRING ''|'', SYMBOL ''identifier''])),
          STRING ''}''],
     SEQ [STRING ''{'', FIELD ''field'' (sep1 (SYMBOL ''pattern_key_value'') '',''),
          pattern_tail_v3, STRING ''}'']]"

definition pattern_tuple_v3 :: rule where
  "pattern_tuple_v3 =
     SEQ [STRING ''{'', FIELD ''element'' (sep1 (SYMBOL ''pattern'') '',''), pattern_tail_v3,
     STRING ''}'']"

definition pattern_list_v3 :: rule where
  "pattern_list_v3 =
     CHOICE [SEQ [STRING ''['', STRING '']''],
     SEQ [STRING ''['', FIELD ''element'' (sep1 (SYMBOL ''pattern'') '',''),
          pattern_tail_v3, STRING '']'']]"

definition pattern_row_v3 :: rule where
  "pattern_row_v3 =
     SEQ [STRING ''['', FIELD ''field'' (commaSep_v2 (SYMBOL ''pattern_key_value'')),
     pattern_tail_v3, STRING '']'']"

definition pattern_key_value_v3 :: rule where
  "pattern_key_value_v3 =
     SEQ [FIELD ''key'' (SYMBOL ''identifier''), STRING '':'',
     FIELD ''pattern'' (SYMBOL ''pattern'')]"

definition wildcard_v3 :: rule where
  "wildcard_v3 =
     STRING ''_''"

definition reset_v3 :: rule where
  "reset_v3 =
     PREC_RIGHT (tier PRECEDENCE_v3 ''control.continuations'')
     (SEQ [STRING ''reset'', FIELD ''body'' (SYMBOL ''expr'')])"

definition shift_v3 :: rule where
  "shift_v3 =
     PREC_RIGHT (tier PRECEDENCE_v3 ''control.continuations'')
     (SEQ [STRING ''shift'', FIELD ''body'' (SYMBOL ''expr'')])"

definition resume_v3 :: rule where
  "resume_v3 =
     PREC_RIGHT (tier PRECEDENCE_v3 ''control.continuations'')
     (SEQ [STRING ''resume'', FIELD ''body'' (SYMBOL ''expr'')])"

definition quantity_v3 :: rule where
  "quantity_v3 =
     CHOICE [STRING ''0'', STRING ''1'', STRING ''*'']"

definition rules_v3 :: "(string \<times> rule) list" where
  "rules_v3 =
    [(''source_file'', source_file_v3), (''module'', module_v3), (''script'', script_v3),
     (''exports'', exports_v3), (''import'', import_v3), (''statement'', statement_v3),
     (''letdec'', letdec_v3), (''using'', using_v3), (''foreign'', foreign_v3),
     (''type_expr'', type_expr_v3), (''modal'', modal_v3), (''mu'', mu_v3), (''expr'', expr_v3),
     (''annotation'', annotation_v3), (''unary'', unary_v3), (''application'', application_v3),
     (''argument'', argument_v3), (''operation'', operation_v3), (''atom'', atom_v3),
     (''parenthesized'', parenthesized_v3), (''variable'', variable_v3), (''hole'', hole_v3),
     (''identifier'', identifier_v3), (''label'', label_v3), (''literal'', literal_v3),
     (''string'', string_v3), (''_digits'', digits_v3), (''number'', number_v3),
     (''boolean'', boolean_v3), (''pi'', pi_v3), (''arrow'', arrow_v3),
     (''pidomain'', pidomain_v3), (''arrdomain'', arrdomain_v3), (''lambda'', lambda_v3),
     (''params'', params_v3), (''param'', param_v3), (''typing'', typing_v3), (''row'', row_v3),
     (''key_value'', key_value_v3), (''key'', key_v3), (''struct'', struct_v3),
     (''tuple'', tuple_v3), (''list'', list_v3), (''variant'', variant_v3),
     (''tagged'', tagged_v3), (''dict'', dict_v3), (''projection'', projection_v3),
     (''injection'', injection_v3), (''assignment'', assignment_v3), (''block'', block_v3),
     (''return_statement'', return_statement_v3), (''match'', match_v3),
     (''alternative'', alternative_v3), (''pattern'', pattern_v3),
     (''pattern_tagged'', pattern_tagged_v3), (''pattern_struct'', pattern_struct_v3),
     (''pattern_tuple'', pattern_tuple_v3), (''pattern_list'', pattern_list_v3),
     (''pattern_row'', pattern_row_v3), (''pattern_key_value'', pattern_key_value_v3),
     (''wildcard'', wildcard_v3), (''reset'', reset_v3), (''shift'', shift_v3),
     (''resume'', resume_v3), (''quantity'', quantity_v3), (''comment'', comment_rule)]"

definition grammar_v3 :: grammar where
  "grammar_v3 =
    \<lparr> name = ''yap'',
      conflicts = [[''struct'', ''block''], [''pattern_list'', ''pattern_row'']],
      extras = [PATTERN space_pattern, SYMBOL ''comment''],
      word = ''identifier'',
      supertypes = [''type_expr'', ''expr'', ''pattern'', ''atom'', ''statement''],
      rules = rules_v3 \<rparr>"

section \<open>What a grammar derives\<close>

text \<open>
  A derivation tree follows the shape of the rule it derives from: a token for a
  terminal, one subtree per member of a \<^verbatim>\<open>seq\<close>, a list of subtrees for a \<^verbatim>\<open>repeat\<close>,
  a node for a symbol, a field or an alias; a \<^verbatim>\<open>choice\<close> and a precedence wrapper leave no
  trace.  Tokens are lexemes; the extras (white space and comments) stand between
  tokens and are not part of the token list.
\<close>

datatype dtree =
    Nil_tree
  | Tok string
  | Sym string dtree
  | Seq "dtree list"
  | Rep "dtree list"
  | Fld string dtree
  | Als string dtree

fun yield :: "dtree \<Rightarrow> string list" where
  "yield Nil_tree = []"
| "yield (Tok t) = [t]"
| "yield (Sym n d) = yield d"
| "yield (Seq ds) = concat (map yield ds)"
| "yield (Rep ds) = concat (map yield ds)"
| "yield (Fld f d) = yield d"
| "yield (Als a d) = yield d"

text \<open>The pattern of a \<^verbatim>\<open>token(...)\<close> rule: the rule inside is read as one regular expression.\<close>

fun token_regex :: "rule \<Rightarrow> regex"
  and token_regex_seq :: "rule list \<Rightarrow> regex"
  and token_regex_choice :: "rule list \<Rightarrow> regex"
where
  "token_regex BLANK = Eps"
| "token_regex (STRING s) = Lit s"
| "token_regex (PATTERN re) = re"
| "token_regex (SYMBOL n) = Empty"
| "token_regex (SEQ rs) = token_regex_seq rs"
| "token_regex (CHOICE rs) = token_regex_choice rs"
| "token_regex (REPEAT r) = Star (token_regex r)"
| "token_regex (REPEAT1 r) = Plus (token_regex r)"
| "token_regex (PREC p r) = token_regex r"
| "token_regex (PREC_LEFT p r) = token_regex r"
| "token_regex (PREC_RIGHT p r) = token_regex r"
| "token_regex (TOKEN r) = token_regex r"
| "token_regex (FIELD f r) = token_regex r"
| "token_regex (ALIAS r a) = token_regex r"
| "token_regex_seq [] = Eps"
| "token_regex_seq (r # rs) = Cat (token_regex r) (token_regex_seq rs)"
| "token_regex_choice [] = Empty"
| "token_regex_choice (r # rs) = Alt (token_regex r) (token_regex_choice rs)"

text \<open>
  The string literals of a rule that are tokens of their own (a literal inside
  \<^verbatim>\<open>token(...)\<close> is part of a longer token).
\<close>

fun literals :: "rule \<Rightarrow> string list"
  and literals_list :: "rule list \<Rightarrow> string list"
where
  "literals BLANK = []"
| "literals (STRING s) = [s]"
| "literals (PATTERN re) = []"
| "literals (SYMBOL n) = []"
| "literals (SEQ rs) = literals_list rs"
| "literals (CHOICE rs) = literals_list rs"
| "literals (REPEAT r) = literals r"
| "literals (REPEAT1 r) = literals r"
| "literals (PREC p r) = literals r"
| "literals (PREC_LEFT p r) = literals r"
| "literals (PREC_RIGHT p r) = literals r"
| "literals (TOKEN r) = []"
| "literals (FIELD f r) = literals r"
| "literals (ALIAS r a) = literals r"
| "literals_list [] = []"
| "literals_list (r # rs) = literals r @ literals_list rs"

text \<open>
  \<^verbatim>\<open>word: $ => $.identifier\<close> names the token against which keywords are checked: the
  keywords are the string literals of the grammar that the pattern of the word token
  matches.
\<close>

definition word_pattern :: "grammar \<Rightarrow> regex" where
  "word_pattern G = (case map_of (rules G) (word G) of Some (PATTERN re) \<Rightarrow> re | _ \<Rightarrow> Empty)"

definition keywords_of :: "grammar \<Rightarrow> string list" where
  "keywords_of G = filter (rmatch (word_pattern G)) (remdups (literals_list (map snd (rules G))))"

text \<open>
  Modelled from the spec: the lexer that the grammar is compiled to is not among the
  sources.  Section 4.1 says of it that the keyword set is checked against the matched
  lexeme before an identifier token is emitted; \<open>lex_word\<close> classifies a lexeme that
  way.
\<close>

datatype word_token = Keyword string | Identifier string

definition lex_word :: "grammar \<Rightarrow> string \<Rightarrow> word_token option" where
  "lex_word G s =
     (if rmatch (word_pattern G) s
      then (if List.member (keywords_of G) s then Some (Keyword s) else Some (Identifier s))
      else None)"

definition is_keyword :: "grammar \<Rightarrow> dtree \<Rightarrow> bool" where
  "is_keyword G d = (case d of Tok t \<Rightarrow> List.member (keywords_of G) t | _ \<Rightarrow> False)"

fun conforms :: "grammar \<Rightarrow> rule \<Rightarrow> dtree \<Rightarrow> bool"
  and conforms_seq :: "grammar \<Rightarrow> rule list \<Rightarrow> dtree list \<Rightarrow> bool"
  and conforms_any :: "grammar \<Rightarrow> rule list \<Rightarrow> dtree \<Rightarrow> bool"
  and conforms_all :: "grammar \<Rightarrow> rule \<Rightarrow> dtree list \<Rightarrow> bool"
where
  "conforms G BLANK d = (d = Nil_tree)"
| "conforms G (STRING s) d = (d = Tok s)"
| "conforms G (PATTERN re) d = (case d of Tok t \<Rightarrow> rmatch re t | _ \<Rightarrow> False)"
| "conforms G (SYMBOL n) d =
     (case d of
        Sym m d' \<Rightarrow>
          m = n \<and>
          (case map_of (rules G) n of
             Some r \<Rightarrow> conforms G r d' \<and> (if n = word G then \<not> is_keyword G d' else True)
           | None \<Rightarrow> False)
      | _ \<Rightarrow> False)"
| "conforms G (SEQ rs) d = (case d of Seq ds \<Rightarrow> conforms_seq G rs ds | _ \<Rightarrow> False)"
| "conforms G (CHOICE rs) d = conforms_any G rs d"
| "conforms G (REPEAT r) d = (case d of Rep ds \<Rightarrow> conforms_all G r ds | _ \<Rightarrow> False)"
| "conforms G (REPEAT1 r) d = (case d of Rep ds \<Rightarrow> ds \<noteq> [] \<and> conforms_all G r ds | _ \<Rightarrow> False)"
| "conforms G (PREC p r) d = conforms G r d"
| "conforms G (PREC_LEFT p r) d = conforms G r d"
| "conforms G (PREC_RIGHT p r) d = conforms G r d"
| "conforms G (TOKEN r) d = (case d of Tok t \<Rightarrow> rmatch (token_regex r) t | _ \<Rightarrow> False)"
| "conforms G (FIELD f r) d = (case d of Fld g d' \<Rightarrow> g = f \<and> conforms G r d' | _ \<Rightarrow> False)"
| "conforms G (ALIAS r a) d = (case d of Als b d' \<Rightarrow> b = a \<and> conforms G r d' | _ \<Rightarrow> False)"
| "conforms_seq G [] ds = (ds = [])"
| "conforms_seq G (r # rs) ds =
     (case ds of [] \<Rightarrow> False | d # ds' \<Rightarrow> conforms G r d \<and> conforms_seq G rs ds')"
| "conforms_any G [] d = False"
| "conforms_any G (r # rs) d = (conforms G r d \<or> conforms_any G rs d)"
| "conforms_all G r [] = True"
| "conforms_all G r (d # ds) = (conforms G r d \<and> conforms_all G r ds)"

text \<open>\<open>derives G n d w\<close>: the symbol \<open>n\<close> of \<open>G\<close> derives the token list \<open>w\<close> by the tree \<open>d\<close>.\<close>

definition derives :: "grammar \<Rightarrow> string \<Rightarrow> dtree \<Rightarrow> string list \<Rightarrow> bool" where
  "derives G n d w = (conforms G (SYMBOL n) d \<and> yield d = w)"


subsection \<open>Struct and block in the words of the specification\<close>








subsection \<open>Two analyses of a grammar: empty yields and last tokens\<close>










section \<open>Example trees\<close>







text \<open>The field names on the children of a node.\<close>

fun child_fields :: "dtree \<Rightarrow> string list" where
  "child_fields (Fld f d) = [f]"
| "child_fields (Seq ds) = concat (map child_fields ds)"
| "child_fields (Rep ds) = concat (map child_fields ds)"
| "child_fields (Als a d) = child_fields d"
| "child_fields d = []"

fun node_fields :: "dtree \<Rightarrow> string list" where
  "node_fields (Sym n d) = child_fields d"
| "node_fields d = []"

text \<open>The hole as an atom and the wildcard as a pattern.\<close>

definition hole_atom :: "string \<Rightarrow> dtree" where
  "hole_atom t = Sym ''atom'' (Sym ''hole'' (Tok t))"

definition wildcard_pattern :: dtree where
  "wildcard_pattern = Sym ''pattern'' (Sym ''wildcard'' (Tok ''_''))"

text \<open>An identifier as an atom; \<^verbatim>\<open>.x\<close> and \<^verbatim>\<open>r.x\<close> as projections.\<close>

definition variable_atom :: "string \<Rightarrow> dtree" where
  "variable_atom x = Sym ''atom'' (Sym ''variable'' (Sym ''identifier'' (Tok x)))"

definition bare_projection :: "string \<Rightarrow> dtree" where
  "bare_projection x =
     Sym ''projection'' (Seq [Tok ''.'', Fld ''key'' (Sym ''identifier'' (Tok x))])"

definition record_projection :: "dtree \<Rightarrow> string \<Rightarrow> dtree" where
  "record_projection r x =
     Sym ''projection''
       (Seq [Fld ''record'' r, Tok ''.'', Fld ''key'' (Sym ''identifier'' (Tok x))])"

text \<open>The members of a \<^verbatim>\<open>choice\<close>.\<close>

fun alternatives :: "rule \<Rightarrow> rule list" where
  "alternatives (CHOICE rs) = rs"
| "alternatives r = [r]"

text \<open>\<^verbatim>\<open>a.b.c\<close> in the second grammar of \<^verbatim>\<open>part_000\<close>.\<close>

definition projection_chain :: dtree where
  "projection_chain =
     Sym ''atom''
       (record_projection (Sym ''atom'' (record_projection (variable_atom ''a'') ''b'')) ''c'')"

section \<open>The lexical claims in the words of the specification\<close>

text \<open>
  Section 4.1 gives the identifier as \<^verbatim>\<open>[A-Za-z_][A-Za-z0-9_']*\<close>: a first character
  that is a letter or an underscore, followed by letters, digits, underscores and primes.
\<close>

definition is_letter :: "char \<Rightarrow> bool" where
  "is_letter c = in_ranges c [lower, upper]"

definition is_digit :: "char \<Rightarrow> bool" where
  "is_digit c = in_ranges c [digit]"

definition ident_start :: "char \<Rightarrow> bool" where
  "ident_start c = (is_letter c \<or> c = CHR ''_'')"

definition ident_part :: "char \<Rightarrow> bool" where
  "ident_part c = (is_letter c \<or> is_digit c \<or> c = CHR ''_'' \<or> c = squote)"

fun spec_identifier :: "string \<Rightarrow> bool" where
  "spec_identifier [] = False"
| "spec_identifier (c # cs) = (ident_start c \<and> list_all ident_part cs)"

text \<open>White space is what the extra \<^verbatim>\<open>/\s/\<close> matches: one character, of one to three bytes.\<close>

definition is_space :: "string \<Rightarrow> bool" where
  "is_space s = rmatch space_pattern s"

text \<open>A rule that is one token of the lexer, not a sequence put together by the parser.\<close>

fun is_lexical :: "rule \<Rightarrow> bool" where
  "is_lexical (STRING s) = True"
| "is_lexical (PATTERN re) = True"
| "is_lexical (TOKEN r) = True"
| "is_lexical r = False"

text \<open>
  Modelled from the spec: the lexer is not among the sources.  Section 4.1 has it resolve
  the label by maximal munch: of the prefixes of the input that a token pattern matches,
  the longest is taken.  \<open>munch r s\<close> is the length of that prefix, if there is one.
\<close>

definition token_prefixes :: "regex \<Rightarrow> string \<Rightarrow> nat list" where
  "token_prefixes r s = filter (\<lambda>n. rmatch r (take n s)) [0 ..< Suc (length s)]"

definition munch :: "regex \<Rightarrow> string \<Rightarrow> nat option" where
  "munch r s = (if token_prefixes r s = [] then None else Some (last (token_prefixes r s)))"

text \<open>\<^verbatim>\<open>:foo\<close> as the label of \<^verbatim>\<open>src/grammar.js\<close>.\<close>

definition label_foo_v1 :: dtree where
  "label_foo_v1 = Sym ''label'' (Seq [Tok '':'', Sym ''identifier'' (Tok ''foo'')])"

text \<open>A name with an underscore in front, a digit and a prime: \<^verbatim>\<open>_x1'\<close>.\<close>

definition underscore_prime_name :: string where
  "underscore_prime_name = ''_x1'' @ [squote]"

section \<open>Auxiliary lemmas\<close>

subsection \<open>Patterns\<close>

lemma nullable_lang: "nullable r \<longleftrightarrow> [] \<in> lang r"
  by (induction r) (auto intro: star.intros)

lemma star_cons: "c # w \<in> star L \<longleftrightarrow> (\<exists>u v. w = u @ v \<and> c # u \<in> L \<and> v \<in> star L)"
proof
  assume "c # w \<in> star L"
  then show "\<exists>u v. w = u @ v \<and> c # u \<in> L \<and> v \<in> star L"
  proof (induction "c # w" arbitrary: w rule: star.induct)
    case (star_app u v)
    then show ?case by (cases u) auto
  qed
next
  assume "\<exists>u v. w = u @ v \<and> c # u \<in> L \<and> v \<in> star L"
  then obtain u v where "w = u @ v" "c # u \<in> L" "v \<in> star L" by blast
  then show "c # w \<in> star L" using star.star_app[of "c # u" L v] by simp
qed

lemma deriv_lang: "w \<in> lang (deriv c r) \<longleftrightarrow> c # w \<in> lang r"
proof (induction r arbitrary: w)
  case (Cat r s)
  show ?case
    by (auto simp: Cat nullable_lang Cons_eq_append_conv)
next
  case (Star r)
  then show ?case by (auto simp: star_cons)
qed auto

lemma rmatch_lang: "rmatch r w \<longleftrightarrow> w \<in> lang r"
  by (induction w arbitrary: r) (auto simp: nullable_lang deriv_lang)

subsection \<open>Fields and rule tables of the three grammars\<close>

lemma grammar_v1_simps [simp]:
  "rules grammar_v1 = rules_v1" "word grammar_v1 = ''identifier''"
  by (simp_all add: grammar_v1_def)

lemma grammar_v2_simps [simp]:
  "rules grammar_v2 = rules_v2" "word grammar_v2 = ''identifier''"
  by (simp_all add: grammar_v2_def)

lemma grammar_v3_simps [simp]:
  "rules grammar_v3 = rules_v3" "word grammar_v3 = ''identifier''"
  by (simp_all add: grammar_v3_def)

lemma lookup_v1:
  "map_of rules_v1 ''source_file'' = Some source_file_v1"
  "map_of rules_v1 ''module'' = Some module_v1"
  "map_of rules_v1 ''script'' = Some script_v1"
  "map_of rules_v1 ''exports'' = Some exports_v1"
  "map_of rules_v1 ''import'' = Some import_v1"
  "map_of rules_v1 ''statement'' = Some statement_v1"
  "map_of rules_v1 ''letdec'' = Some letdec_v1"
  "map_of rules_v1 ''using'' = Some using_v1"
  "map_of rules_v1 ''foreign'' = Some foreign_v1"
  "map_of rules_v1 ''type'' = Some type_v1"
  "map_of rules_v1 ''ann'' = Some ann_v1"
  "map_of rules_v1 ''modal_type'' = Some modal_type_v1"
  "map_of rules_v1 ''mu'' = Some mu_v1"
  "map_of rules_v1 ''expr'' = Some expr_v1"
  "map_of rules_v1 ''application'' = Some application_v1"
  "map_of rules_v1 ''operation'' = Some operation_v1"
  "map_of rules_v1 ''atom'' = Some atom_v1"
  "map_of rules_v1 ''parenthesized'' = Some parenthesized_v1"
  "map_of rules_v1 ''variable'' = Some variable_v1"
  "map_of rules_v1 ''hole'' = Some hole_v1"
  "map_of rules_v1 ''label'' = Some label_v1"
  "map_of rules_v1 ''literal'' = Some literal_v1"
  "map_of rules_v1 ''string'' = Some string_v1"
  "map_of rules_v1 ''number'' = Some number_v1"
  "map_of rules_v1 ''boolean'' = Some boolean_v1"
  "map_of rules_v1 ''lambda'' = Some lambda_v1"
  "map_of rules_v1 ''param'' = Some param_v1"
  "map_of rules_v1 ''typed_param'' = Some typed_param_v1"
  "map_of rules_v1 ''pi'' = Some pi_v1"
  "map_of rules_v1 ''row'' = Some row_v1"
  "map_of rules_v1 ''key_value'' = Some key_value_v1"
  "map_of rules_v1 ''key'' = Some key_v1"
  "map_of rules_v1 ''struct'' = Some struct_v1"
  "map_of rules_v1 ''tuple'' = Some tuple_v1"
  "map_of rules_v1 ''list'' = Some list_v1"
  "map_of rules_v1 ''variant'' = Some variant_v1"
  "map_of rules_v1 ''tagged'' = Some tagged_v1"
  "map_of rules_v1 ''dict'' = Some dict_v1"
  "map_of rules_v1 ''projection'' = Some projection_v1"
  "map_of rules_v1 ''injection'' = Some injection_v1"
  "map_of rules_v1 ''assignment'' = Some assignment_v1"
  "map_of rules_v1 ''block'' = Some block_v1"
  "map_of rules_v1 ''return_statement'' = Some return_statement_v1"
  "map_of rules_v1 ''match'' = Some match_v1"
  "map_of rules_v1 ''alternative'' = Some alternative_v1"
  "map_of rules_v1 ''pattern'' = Some pattern_v1"
  "map_of rules_v1 ''pattern_variable'' = Some pattern_variable_v1"
  "map_of rules_v1 ''pattern_literal'' = Some pattern_literal_v1"
  "map_of rules_v1 ''pattern_tagged'' = Some pattern_tagged_v1"
  "map_of rules_v1 ''pattern_struct'' = Some pattern_struct_v1"
  "map_of rules_v1 ''pattern_tuple'' = Some pattern_tuple_v1"
  "map_of rules_v1 ''pattern_list'' = Some pattern_list_v1"
  "map_of rules_v1 ''pattern_row'' = Some pattern_row_v1"
  "map_of rules_v1 ''pattern_key_value'' = Some pattern_key_value_v1"
  "map_of rules_v1 ''wildcard'' = Some wildcard_v1"
  "map_of rules_v1 ''reset'' = Some reset_v1"
  "map_of rules_v1 ''shift'' = Some shift_v1"
  "map_of rules_v1 ''resume'' = Some resume_v1"
  "map_of rules_v1 ''quantity'' = Some quantity_v1"
  "map_of rules_v1 ''identifier'' = Some identifier_v1"
  "map_of rules_v1 ''comment'' = Some comment_rule"
  unfolding rules_v1_def
  by (simp_all only: map_of.simps fun_upd_apply fst_conv snd_conv list.inject list.distinct
        char.inject simp_thms if_True if_False option.inject refl)

lemma lookup_v2:
  "map_of rules_v2 ''source_file'' = Some source_file_v2"
  "map_of rules_v2 ''module'' = Some module_v2"
  "map_of rules_v2 ''script'' = Some script_v2"
  "map_of rules_v2 ''exports'' = Some exports_v2"
  "map_of rules_v2 ''import'' = Some import_v2"
  "map_of rules_v2 ''statement'' = Some statement_v2"
  "map_of rules_v2 ''letdec'' = Some letdec_v2"
  "map_of rules_v2 ''using'' = Some using_v2"
  "map_of rules_v2 ''foreign'' = Some foreign_v2"
  "map_of rules_v2 ''type_expr'' = Some type_expr_v2"
  "map_of rules_v2 ''modal'' = Some modal_v2"
  "map_of rules_v2 ''mu'' = Some mu_v2"
  "map_of rules_v2 ''expr'' = Some expr_v2"
  "map_of rules_v2 ''annotation'' = Some annotation_v2"
  "map_of rules_v2 ''unary'' = Some unary_v2"
  "map_of rules_v2 ''application'' = Some application_v2"
  "map_of rules_v2 ''operation'' = Some operation_v2"
  "map_of rules_v2 ''atom'' = Some atom_v2"
  "map_of rules_v2 ''parenthesized'' = Some parenthesized_v2"
  "map_of rules_v2 ''variable'' = Some variable_v2"
  "map_of rules_v2 ''hole'' = Some hole_v2"
  "map_of rules_v2 ''identifier'' = Some identifier_v2"
  "map_of rules_v2 ''label'' = Some label_v2"
  "map_of rules_v2 ''literal'' = Some literal_v2"
  "map_of rules_v2 ''string'' = Some string_v2"
  "map_of rules_v2 ''_digits'' = Some digits_v2"
  "map_of rules_v2 ''number'' = Some number_v2"
  "map_of rules_v2 ''boolean'' = Some boolean_v2"
  "map_of rules_v2 ''pi'' = Some pi_v2"
  "map_of rules_v2 ''arrow'' = Some arrow_v2"
  "map_of rules_v2 ''lambda'' = Some lambda_v2"
  "map_of rules_v2 ''params'' = Some params_v2"
  "map_of rules_v2 ''param'' = Some param_v2"
  "map_of rules_v2 ''typing'' = Some typing_v2"
  "map_of rules_v2 ''row'' = Some row_v2"
  "map_of rules_v2 ''key_value'' = Some key_value_v2"
  "map_of rules_v2 ''key'' = Some key_v2"
  "map_of rules_v2 ''struct'' = Some struct_v2"
  "map_of rules_v2 ''tuple'' = Some tuple_v2"
  "map_of rules_v2 ''list'' = Some list_v2"
  "map_of rules_v2 ''variant'' = Some variant_v2"
  "map_of rules_v2 ''tagged'' = Some tagged_v2"
  "map_of rules_v2 ''dict'' = Some dict_v2"
  "map_of rules_v2 ''projection'' = Some projection_v2"
  "map_of rules_v2 ''injection'' = Some injection_v2"
  "map_of rules_v2 ''assignment'' = Some assignment_v2"
  "map_of rules_v2 ''block'' = Some block_v2"
  "map_of rules_v2 ''return_statement'' = Some return_statement_v2"
  "map_of rules_v2 ''match'' = Some match_v2"
  "map_of rules_v2 ''alternative'' = Some alternative_v2"
  "map_of rules_v2 ''pattern'' = Some pattern_v2"
  "map_of rules_v2 ''pattern_tagged'' = Some pattern_tagged_v2"
  "map_of rules_v2 ''pattern_struct'' = Some pattern_struct_v2"
  "map_of rules_v2 ''pattern_tuple'' = Some pattern_tuple_v2"
  "map_of rules_v2 ''pattern_list'' = Some pattern_list_v2"
  "map_of rules_v2 ''pattern_row'' = Some pattern_row_v2"
  "map_of rules_v2 ''pattern_key_value'' = Some pattern_key_value_v2"
  "map_of rules_v2 ''wildcard'' = Some wildcard_v2"
  "map_of rules_v2 ''reset'' = Some reset_v2"
  "map_of rules_v2 ''shift'' = Some shift_v2"
  "map_of rules_v2 ''resume'' = Some resume_v2"
  "map_of rules_v2 ''quantity'' = Some quantity_v2"
  "map_of rules_v2 ''comment'' = Some comment_rule"
  unfolding rules_v2_def
  by (simp_all only: map_of.simps fun_upd_apply fst_conv snd_conv list.inject list.distinct
        char.inject simp_thms if_True if_False option.inject refl)

lemma lookup_v3:
  "map_of rules_v3 ''source_file'' = Some source_file_v3"
  "map_of rules_v3 ''module'' = Some module_v3"
  "map_of rules_v3 ''script'' = Some script_v3"
  "map_of rules_v3 ''exports'' = Some exports_v3"
  "map_of rules_v3 ''import'' = Some import_v3"
  "map_of rules_v3 ''statement'' = Some statement_v3"
  "map_of rules_v3 ''letdec'' = Some letdec_v3"
  "map_of rules_v3 ''using'' = Some using_v3"
  "map_of rules_v3 ''foreign'' = Some foreign_v3"
  "map_of rules_v3 ''type_expr'' = Some type_expr_v3"
  "map_of rules_v3 ''modal'' = Some modal_v3"
  "map_of rules_v3 ''mu'' = Some mu_v3"
  "map_of rules_v3 ''expr'' = Some expr_v3"
  "map_of rules_v3 ''annotation'' = Some annotation_v3"
  "map_of rules_v3 ''unary'' = Some unary_v3"
  "map_of rules_v3 ''application'' = Some application_v3"
  "map_of rules_v3 ''argument'' = Some argument_v3"
  "map_of rules_v3 ''operation'' = Some operation_v3"
  "map_of rules_v3 ''atom'' = Some atom_v3"
  "map_of rules_v3 ''parenthesized'' = Some parenthesized_v3"
  "map_of rules_v3 ''variable'' = Some variable_v3"
  "map_of rules_v3 ''hole'' = Some hole_v3"
  "map_of rules_v3 ''identifier'' = Some identifier_v3"
  "map_of rules_v3 ''label'' = Some label_v3"
  "map_of rules_v3 ''literal'' = Some literal_v3"
  "map_of rules_v3 ''string'' = Some string_v3"
  "map_of rules_v3 ''_digits'' = Some digits_v3"
  "map_of rules_v3 ''number'' = Some number_v3"
  "map_of rules_v3 ''boolean'' = Some boolean_v3"
  "map_of rules_v3 ''pi'' = Some pi_v3"
  "map_of rules_v3 ''arrow'' = Some arrow_v3"
  "map_of rules_v3 ''pidomain'' = Some pidomain_v3"
  "map_of rules_v3 ''arrdomain'' = Some arrdomain_v3"
  "map_of rules_v3 ''lambda'' = Some lambda_v3"
  "map_of rules_v3 ''params'' = Some params_v3"
  "map_of rules_v3 ''param'' = Some param_v3"
  "map_of rules_v3 ''typing'' = Some typing_v3"
  "map_of rules_v3 ''row'' = Some row_v3"
  "map_of rules_v3 ''key_value'' = Some key_value_v3"
  "map_of rules_v3 ''key'' = Some key_v3"
  "map_of rules_v3 ''struct'' = Some struct_v3"
  "map_of rules_v3 ''tuple'' = Some tuple_v3"
  "map_of rules_v3 ''list'' = Some list_v3"
  "map_of rules_v3 ''variant'' = Some variant_v3"
  "map_of rules_v3 ''tagged'' = Some tagged_v3"
  "map_of rules_v3 ''dict'' = Some dict_v3"
  "map_of rules_v3 ''projection'' = Some projection_v3"
  "map_of rules_v3 ''injection'' = Some injection_v3"
  "map_of rules_v3 ''assignment'' = Some assignment_v3"
  "map_of rules_v3 ''block'' = Some block_v3"
  "map_of rules_v3 ''return_statement'' = Some return_statement_v3"
  "map_of rules_v3 ''match'' = Some match_v3"
  "map_of rules_v3 ''alternative'' = Some alternative_v3"
  "map_of rules_v3 ''pattern'' = Some pattern_v3"
  "map_of rules_v3 ''pattern_tagged'' = Some pattern_tagged_v3"
  "map_of rules_v3 ''pattern_struct'' = Some pattern_struct_v3"
  "map_of rules_v3 ''pattern_tuple'' = Some pattern_tuple_v3"
  "map_of rules_v3 ''pattern_list'' = Some pattern_list_v3"
  "map_of rules_v3 ''pattern_row'' = Some pattern_row_v3"
  "map_of rules_v3 ''pattern_key_value'' = Some pattern_key_value_v3"
  "map_of rules_v3 ''wildcard'' = Some wildcard_v3"
  "map_of rules_v3 ''reset'' = Some reset_v3"
  "map_of rules_v3 ''shift'' = Some shift_v3"
  "map_of rules_v3 ''resume'' = Some resume_v3"
  "map_of rules_v3 ''quantity'' = Some quantity_v3"
  "map_of rules_v3 ''comment'' = Some comment_rule"
  unfolding rules_v3_def
  by (simp_all only: map_of.simps fun_upd_apply fst_conv snd_conv list.inject list.distinct
        char.inject simp_thms if_True if_False option.inject refl)


subsection \<open>Soundness of the two analyses\<close>








subsection \<open>Reading a conforming tree\<close>

lemma conforms_SYMBOL:
  "conforms G (SYMBOL n) d \<longleftrightarrow>
     (\<exists>d' r. d = Sym n d' \<and> map_of (rules G) n = Some r \<and> conforms G r d' \<and>
             (if n = word G then \<not> is_keyword G d' else True))"
  by (auto split: dtree.splits option.splits)

lemma conforms_SEQ: "conforms G (SEQ rs) d \<longleftrightarrow> (\<exists>ds. d = Seq ds \<and> conforms_seq G rs ds)"
  by (auto split: dtree.splits)

lemma conforms_seq_Cons:
  "conforms_seq G (r # rs) ds \<longleftrightarrow>
     (\<exists>d ds'. ds = d # ds' \<and> conforms G r d \<and> conforms_seq G rs ds')"
  by (auto split: list.splits)

lemma conforms_REPEAT: "conforms G (REPEAT r) d \<longleftrightarrow> (\<exists>ds. d = Rep ds \<and> conforms_all G r ds)"
  by (auto split: dtree.splits)

lemma conforms_REPEAT1:
  "conforms G (REPEAT1 r) d \<longleftrightarrow> (\<exists>ds. d = Rep ds \<and> ds \<noteq> [] \<and> conforms_all G r ds)"
  by (auto split: dtree.splits)

lemma conforms_FIELD: "conforms G (FIELD f r) d \<longleftrightarrow> (\<exists>d'. d = Fld f d' \<and> conforms G r d')"
  by (auto split: dtree.splits)

lemma conforms_ALIAS: "conforms G (ALIAS r a) d \<longleftrightarrow> (\<exists>d'. d = Als a d' \<and> conforms G r d')"
  by (auto split: dtree.splits)

lemma conforms_PATTERN: "conforms G (PATTERN re) d \<longleftrightarrow> (\<exists>t. d = Tok t \<and> rmatch re t)"
  by (auto split: dtree.splits)

lemma conforms_TOKEN:
  "conforms G (TOKEN r) d \<longleftrightarrow> (\<exists>t. d = Tok t \<and> rmatch (token_regex r) t)"
  by (auto split: dtree.splits)

lemmas conforms_iffs =
  conforms_SYMBOL conforms_SEQ conforms_seq_Cons conforms_REPEAT conforms_REPEAT1
  conforms_FIELD conforms_ALIAS conforms_PATTERN conforms_TOKEN

declare conforms.simps(3,4,5,7,8,12,13,14) [simp del]
declare conforms_seq.simps(2) [simp del]
declare conforms_iffs [simp]

subsection \<open>Brace forms of \<^verbatim>\<open>src/grammar.js\<close>\<close>




























subsection \<open>Keywords, identifiers and projections\<close>


lemma keywords_v1:
  "keywords_of grammar_v1 =
     [''export'', ''import'', ''let'', ''using'', ''as'', ''foreign'', ''Type'', ''Unit'', ''Row'',
      ''true'', ''false'', ''return'', ''match'', ''reset'', ''shift'', ''resume'']"
  by code_simp

lemma keywords_v2:
  "keywords_of grammar_v2 =
     [''export'', ''import'', ''let'', ''using'', ''as'', ''foreign'', ''Type'', ''Unit'', ''Row'',
      ''true'', ''false'', ''return'', ''match'', ''_'', ''reset'', ''shift'', ''resume'']"
  by code_simp

lemma keywords_v3:
  "keywords_of grammar_v3 =
     [''export'', ''import'', ''let'', ''using'', ''as'', ''foreign'', ''Type'', ''Unit'', ''Row'',
      ''true'', ''false'', ''return'', ''match'', ''_'', ''reset'', ''shift'', ''resume'']"
  by code_simp

lemma word_pattern_v1: "word_pattern grammar_v1 = identifier_pattern_v1"
  by (simp add: word_pattern_def lookup_v1 identifier_v1_def)
lemma word_pattern_v2: "word_pattern grammar_v2 = IDENTIFIER_PATTERN"
  by (simp add: word_pattern_def lookup_v2 identifier_v2_def)
lemma word_pattern_v3: "word_pattern grammar_v3 = IDENTIFIER_PATTERN"
  by (simp add: word_pattern_def lookup_v3 identifier_v3_def)

lemmas pattern_defs =
  IDENTIFIER_PATTERN_def identifier_pattern_v1_def label_pattern_def digits_pattern_def
  Plus_def Chr_def in_ranges_def lower_def upper_def digit_def one_def squote_def

lemma lex_word_Identifier:
  "lex_word G x = Some (Identifier y) \<longleftrightarrow>
     y = x \<and> rmatch (word_pattern G) x \<and> \<not> List.member (keywords_of G) x"
  by (auto simp: lex_word_def)

lemma lex_word_examples:
  "lex_word grammar_v1 ''foo'' = Some (Identifier ''foo'')"
  "lex_word grammar_v2 ''foo'' = Some (Identifier ''foo'')"
  "lex_word grammar_v3 ''foo'' = Some (Identifier ''foo'')"
  "lex_word grammar_v3 ''a'' = Some (Identifier ''a'')"
  "lex_word grammar_v3 ''b'' = Some (Identifier ''b'')"
  "lex_word grammar_v3 ''c'' = Some (Identifier ''c'')"
  by (simp_all add: lex_word_Identifier word_pattern_v1 word_pattern_v2 word_pattern_v3
        keywords_v1 keywords_v2 keywords_v3 pattern_defs)

lemma identifier_conforms:
  assumes "lex_word G x = Some (Identifier x)"
  shows "G = grammar_v1 \<Longrightarrow> conforms G (SYMBOL ''identifier'') (Sym ''identifier'' (Tok x))"
    and "G = grammar_v2 \<Longrightarrow> conforms G (SYMBOL ''identifier'') (Sym ''identifier'' (Tok x))"
    and "G = grammar_v3 \<Longrightarrow> conforms G (SYMBOL ''identifier'') (Sym ''identifier'' (Tok x))"
  using assms
  by (simp_all add: lex_word_Identifier word_pattern_v1 word_pattern_v2 word_pattern_v3
        lookup_v1 lookup_v2 lookup_v3 identifier_v1_def identifier_v2_def identifier_v3_def
        is_keyword_def)

lemma projection_bare:
  assumes "conforms G (SYMBOL ''identifier'') (Sym ''identifier'' (Tok x))"
  shows "G = grammar_v1 \<Longrightarrow> conforms G (SYMBOL ''atom'') (Sym ''atom'' (bare_projection x))"
    and "G = grammar_v2 \<Longrightarrow> conforms G (SYMBOL ''atom'') (Sym ''atom'' (bare_projection x))"
    and "G = grammar_v3 \<Longrightarrow> conforms G (SYMBOL ''atom'') (Sym ''atom'' (bare_projection x))"
  using assms
  by (simp_all del: conforms_iffs
        add: conforms.simps conforms_seq.simps bare_projection_def lookup_v1 lookup_v2 lookup_v3
          atom_v1_def atom_v2_def atom_v3_def
          projection_v1_def projection_v2_def projection_v3_def)

lemma projection_record:
  assumes "conforms G (SYMBOL ''identifier'') (Sym ''identifier'' (Tok x))"
    and "conforms G (SYMBOL ''atom'') r"
  shows "G = grammar_v1 \<Longrightarrow> conforms G (SYMBOL ''atom'') (Sym ''atom'' (record_projection r x))"
    and "G = grammar_v2 \<Longrightarrow> conforms G (SYMBOL ''atom'') (Sym ''atom'' (record_projection r x))"
    and "G = grammar_v3 \<Longrightarrow> conforms G (SYMBOL ''atom'') (Sym ''atom'' (record_projection r x))"
  using assms
  by (simp_all del: conforms_iffs
        add: conforms.simps conforms_seq.simps record_projection_def lookup_v1 lookup_v2 lookup_v3
          atom_v1_def atom_v2_def atom_v3_def
          projection_v1_def projection_v2_def projection_v3_def)

lemma variable_atom_v3:
  "derives grammar_v3 ''atom'' (variable_atom ''a'') [''a'']"
  using identifier_conforms(3)[OF lex_word_examples(4)]
  by (simp del: conforms_iffs
        add: conforms.simps derives_def variable_atom_def lookup_v3 atom_v3_def variable_v3_def)

section \<open>The claims\<close>

subsection \<open>C1: braces, struct or block\<close>



subsection \<open>C9: the hole\<close>

text \<open>
  C9.  In each of the three grammars \<open>hole\<close> is one of the alternatives of \<open>atom\<close>, so
  the hole token alone is an atom wherever an atom may stand: \<^verbatim>\<open>_\<close> in
  \<^verbatim>\<open>src/grammar.js\<close>, \<^verbatim>\<open>?\<close> in the two grammars of \<^verbatim>\<open>part_000\<close>.  Its node is \<open>hole\<close>;
  the pattern wildcard \<^verbatim>\<open>_\<close> is the node \<open>wildcard\<close> under \<open>pattern\<close>, and neither symbol
  is an alternative of the other's category.
\<close>

theorem hole_atom_all:
  "derives grammar_v1 ''atom'' (hole_atom ''_'') [''_''] \<and>
   derives grammar_v2 ''atom'' (hole_atom ''?'') [''?''] \<and>
   derives grammar_v3 ''atom'' (hole_atom ''?'') [''?''] \<and>
   List.member (alternatives atom_v1) (SYMBOL ''hole'') \<and>
   List.member (alternatives atom_v2) (SYMBOL ''hole'') \<and>
   List.member (alternatives atom_v3) (SYMBOL ''hole'') \<and>
   derives grammar_v1 ''pattern'' wildcard_pattern [''_''] \<and>
   derives grammar_v2 ''pattern'' wildcard_pattern [''_''] \<and>
   derives grammar_v3 ''pattern'' wildcard_pattern [''_''] \<and>
   \<not> List.member (alternatives atom_v1) (SYMBOL ''wildcard'') \<and>
   \<not> List.member (alternatives atom_v2) (SYMBOL ''wildcard'') \<and>
   \<not> List.member (alternatives atom_v3) (SYMBOL ''wildcard'') \<and>
   \<not> List.member (alternatives pattern_v1) (SYMBOL ''hole'') \<and>
   \<not> List.member (alternatives pattern_v2) (SYMBOL ''hole'') \<and>
   \<not> List.member (alternatives pattern_v3) (SYMBOL ''hole'')"
  by (simp add: derives_def hole_atom_def wildcard_pattern_def lookup_v1 lookup_v2 lookup_v3
        atom_v1_def atom_v2_def atom_v3_def hole_v1_def hole_v2_def hole_v3_def
        pattern_v1_def pattern_v2_def pattern_v3_def wildcard_v1_def wildcard_v2_def
        wildcard_v3_def)

text \<open>The theorem at the hole of \<^verbatim>\<open>src/grammar.js\<close>, which shares its token with the wildcard.\<close>

theorem hole_atom_all_witness:
  "derives grammar_v1 ''atom'' (hole_atom ''_'') [''_''] \<and>
   derives grammar_v1 ''pattern'' wildcard_pattern [''_''] \<and>
   hole_atom ''_'' \<noteq> wildcard_pattern"
  using hole_atom_all by (simp add: hole_atom_def wildcard_pattern_def)

subsection \<open>C10: projection without a record\<close>

text \<open>
  C10.  In each of the three grammars a \<^verbatim>\<open>.\<close> followed by an identifier is by itself a
  projection, and so an atom, whose only field is \<open>key\<close>: the field \<open>record\<close> is absent.
  Next to it stands the form with a record: any atom followed by \<^verbatim>\<open>.\<close> and an
  identifier is a projection with the fields \<open>record\<close> and \<open>key\<close>, which chains.
\<close>

theorem projection_forms:
  assumes "G = grammar_v1 \<or> G = grammar_v2 \<or> G = grammar_v3"
    and "lex_word G x = Some (Identifier x)"
  shows "derives G ''atom'' (Sym ''atom'' (bare_projection x)) [''.'', x] \<and>
         node_fields (bare_projection x) = [''key''] \<and>
         (\<forall>r w. derives G ''atom'' r w \<longrightarrow>
            derives G ''atom'' (Sym ''atom'' (record_projection r x)) (w @ [''.'', x]) \<and>
            node_fields (record_projection r x) = [''record'', ''key''])"
proof -
  have i: "conforms G (SYMBOL ''identifier'') (Sym ''identifier'' (Tok x))"
    using assms identifier_conforms[OF assms(2)] by blast
  have "conforms G (SYMBOL ''atom'') (Sym ''atom'' (bare_projection x))"
    using assms(1) projection_bare[OF i] by blast
  moreover have "yield (Sym ''atom'' (bare_projection x)) = [''.'', x]"
    by (simp add: bare_projection_def)
  moreover have "node_fields (bare_projection x) = [''key'']"
    by (simp add: bare_projection_def)
  moreover have "conforms G (SYMBOL ''atom'') (Sym ''atom'' (record_projection r x))"
    if "conforms G (SYMBOL ''atom'') r" for r
    using assms(1) projection_record[OF i that] by blast
  moreover have "yield (Sym ''atom'' (record_projection r x)) = yield r @ [''.'', x]" for r
    by (simp add: record_projection_def)
  moreover have "node_fields (record_projection r x) = [''record'', ''key'']" for r
    by (simp add: record_projection_def)
  ultimately show ?thesis
    unfolding derives_def by blast
qed

text \<open>The theorem at \<^verbatim>\<open>.foo\<close> and, applied twice, at \<^verbatim>\<open>a.b.c\<close>.\<close>

theorem projection_forms_witness:
  "lex_word grammar_v3 ''foo'' = Some (Identifier ''foo'') \<and>
   derives grammar_v3 ''atom'' (Sym ''atom'' (bare_projection ''foo'')) [''.'', ''foo''] \<and>
   derives grammar_v3 ''atom'' projection_chain [''a'', ''.'', ''b'', ''.'', ''c'']"
proof -
  note b = projection_forms [of grammar_v3 "''b''", OF _ lex_word_examples(5)]
  note c = projection_forms [of grammar_v3 "''c''", OF _ lex_word_examples(6)]
  from b variable_atom_v3
  have "derives grammar_v3 ''atom'' (Sym ''atom'' (record_projection (variable_atom ''a'') ''b''))
          ([''a''] @ [''.'', ''b''])"
    by blast
  with c
  have "derives grammar_v3 ''atom''
          (Sym ''atom'' (record_projection
             (Sym ''atom'' (record_projection (variable_atom ''a'') ''b'')) ''c''))
          (([''a''] @ [''.'', ''b'']) @ [''.'', ''c''])"
    by blast
  then have "derives grammar_v3 ''atom'' projection_chain [''a'', ''.'', ''b'', ''.'', ''c'']"
    by (simp add: projection_chain_def)
  with projection_forms [of grammar_v3 "''foo''", OF _ lex_word_examples(3)] lex_word_examples(3)
  show ?thesis by simp
qed

end
